theory Spec2Isabelle
  imports Complex_Main "HOL-Library.Sublist"
begin

section \<open>The Gemini CLI node: plan lifecycle and subprocess orchestration\<close>

text \<open>
  A shallow embedding of the latest revision of \<^verbatim>\<open>GeminiCli.node.ts\<close> (the revision with
  execution plans). Static methods of the class become functions over an explicit
  \<open>world\<close> (file system, clock, log of \<^verbatim>\<open>spawn\<close> calls); a rejected promise or a thrown
  error is the \<open>Inl\<close> branch of the result. What the JavaScript runtime and the external
  \<^verbatim>\<open>gemini\<close> binary do is not code of the node: it is collected in a \<open>runtime\<close> record
  that every function takes as its first argument.
\<close>

subsection \<open>JavaScript values\<close>

text \<open>
  The result of \<^verbatim>\<open>JSON.parse\<close>. Numbers are the finite ones (\<^verbatim>\<open>JSON.parse\<close> can also
  overflow to \<^verbatim>\<open>Infinity\<close>, which is outside this model). An absent property, that is
  \<^verbatim>\<open>undefined\<close>, is \<open>None\<close> of an option. Strings are lists of 8-bit characters.
\<close>

datatype json =
    JNull
  | JBool bool
  | JNum real
  | JStr string
  | JArr "json list"
  | JObj "(string \<times> json) list"

text \<open>Property access \<^verbatim>\<open>v.k\<close> on a value that is not \<^verbatim>\<open>null\<close>: only objects carry the
  properties read by the node.\<close>

fun field :: "json \<Rightarrow> string \<Rightarrow> json option" where
  "field (JObj kvs) k = map_of kvs k"
| "field _ k = None"

text \<open>Truthiness, as tested by \<^verbatim>\<open>!v\<close>, \<^verbatim>\<open>v || d\<close> and \<^verbatim>\<open>v ? a : b\<close>.\<close>

fun truthy :: "json \<Rightarrow> bool" where
  "truthy JNull = False"
| "truthy (JBool b) = b"
| "truthy (JNum n) = (n \<noteq> 0)"
| "truthy (JStr s) = (s \<noteq> [])"
| "truthy (JArr _) = True"
| "truthy (JObj _) = True"

definition js_or :: "json option \<Rightarrow> json \<Rightarrow> json" where
  "js_or v d = (case v of None \<Rightarrow> d | Some j \<Rightarrow> if truthy j then j else d)"

definition str_or :: "string option \<Rightarrow> string \<Rightarrow> string" where
  "str_or v d = (case v of None \<Rightarrow> d | Some s \<Rightarrow> if s \<noteq> [] then s else d)"

definition nonempty :: "string option \<Rightarrow> bool" where
  "nonempty v = (case v of None \<Rightarrow> False | Some s \<Rightarrow> s \<noteq> [])"

definition is_true :: "bool option \<Rightarrow> bool" where
  "is_true v = (v = Some True)"

text \<open>Decimal rendering of an index or a count inside a template literal.\<close>

definition digit :: "nat \<Rightarrow> char" where
  "digit d = ''0123456789'' ! d"

function show_nat :: "nat \<Rightarrow> string" where
  "show_nat n = (if n < 10 then [digit n] else show_nat (n div 10) @ [digit (n mod 10)])"
  by pat_completeness auto
termination
  by (relation "measure (\<lambda>n. n)") auto

declare show_nat.simps [simp del]

definition show_int :: "int \<Rightarrow> string" where
  "show_int i = (if i < 0 then CHR ''-'' # show_nat (nat (- i)) else show_nat (nat i))"

text \<open>\<^verbatim>\<open>String.prototype.trim\<close>, on the ASCII white space.\<close>

definition is_space :: "char \<Rightarrow> bool" where
  "is_space c = (c \<in> set [CHR '' '', CHR 0x09, CHR 0x0A, CHR 0x0B, CHR 0x0C, CHR 0x0D])"

definition trim :: "string \<Rightarrow> string" where
  "trim s = rev (dropWhile is_space (rev (dropWhile is_space s)))"

subsection \<open>Data model\<close>

datatype step_status = step_pending | step_in_progress | step_completed | step_failed

datatype plan_status = draft | approved | executing | completed | failed

datatype security_mode = safe | yolo | sandbox

text \<open>
  The fields that the node fills from the agent's reply through an unchecked cast
  (\<^verbatim>\<open>as string\<close>) hold whatever JSON value the reply had, so they are typed \<open>json\<close>.
  A field of both interfaces carries the interface in its name.
\<close>

record ExecutionStep =
  step_id :: json
  step_description :: json
  command :: "json option"
  files :: "json list option"
  estimated_duration :: "real option"
  step_status :: "step_status option"

record ToolsConfig =
  enabledTools :: "string list option"
  securityMode :: "security_mode option"
  checkpointing :: "bool option"

record plan_configuration =
  cfg_model :: "string option"
  cfg_projectPath :: "string option"
  cfg_toolsConfig :: "ToolsConfig option"

record ExecutionPlan =
  plan_id :: string
  title :: json
  description :: json
  steps :: "ExecutionStep list"
  created_at :: real
  modified_at :: real
  status :: plan_status
  original_prompt :: "string option"
  configuration :: "plan_configuration option"

subsection \<open>The plan as a JSON document\<close>

text \<open>
  \<^verbatim>\<open>JSON.stringify(plan, null, 2)\<close> is the runtime's printer applied to the object tree below;
  a property whose value is \<^verbatim>\<open>undefined\<close> is left out of the document.
\<close>

definition opt :: "string \<Rightarrow> json option \<Rightarrow> (string \<times> json) list" where
  "opt k v = (case v of None \<Rightarrow> [] | Some j \<Rightarrow> [(k, j)])"

fun step_status_name :: "step_status \<Rightarrow> string" where
  "step_status_name step_pending = ''pending''"
| "step_status_name step_in_progress = ''in_progress''"
| "step_status_name step_completed = ''completed''"
| "step_status_name step_failed = ''failed''"

fun plan_status_name :: "plan_status \<Rightarrow> string" where
  "plan_status_name draft = ''draft''"
| "plan_status_name approved = ''approved''"
| "plan_status_name executing = ''executing''"
| "plan_status_name completed = ''completed''"
| "plan_status_name failed = ''failed''"

fun security_mode_name :: "security_mode \<Rightarrow> string" where
  "security_mode_name safe = ''safe''"
| "security_mode_name yolo = ''yolo''"
| "security_mode_name sandbox = ''sandbox''"

definition step_to_json :: "ExecutionStep \<Rightarrow> json" where
  "step_to_json s = JObj (
     [(''id'', step_id s), (''description'', step_description s)]
     @ opt ''command'' (command s)
     @ opt ''files'' (map_option JArr (files s))
     @ opt ''estimated_duration'' (map_option JNum (estimated_duration s))
     @ opt ''status'' (map_option (JStr \<circ> step_status_name) (step_status s)))"

definition tools_to_json :: "ToolsConfig \<Rightarrow> json" where
  "tools_to_json t = JObj (
     opt ''enabledTools'' (map_option (JArr \<circ> map JStr) (enabledTools t))
     @ opt ''securityMode'' (map_option (JStr \<circ> security_mode_name) (securityMode t))
     @ opt ''checkpointing'' (map_option JBool (checkpointing t)))"

definition configuration_to_json :: "plan_configuration \<Rightarrow> json" where
  "configuration_to_json c = JObj (
     opt ''model'' (map_option JStr (cfg_model c))
     @ opt ''projectPath'' (map_option JStr (cfg_projectPath c))
     @ opt ''toolsConfig'' (map_option tools_to_json (cfg_toolsConfig c)))"

definition plan_to_json :: "ExecutionPlan \<Rightarrow> json" where
  "plan_to_json p = JObj (
     [(''id'', JStr (plan_id p)),
      (''title'', title p),
      (''description'', description p),
      (''steps'', JArr (map step_to_json (steps p))),
      (''created_at'', JNum (created_at p)),
      (''modified_at'', JNum (modified_at p)),
      (''status'', JStr (plan_status_name (status p)))]
     @ opt ''original_prompt'' (map_option JStr (original_prompt p))
     @ opt ''configuration'' (map_option configuration_to_json (configuration p)))"

text \<open>
  \<^verbatim>\<open>JSON.parse(planContent) as ExecutionPlan\<close>: the cast is unchecked, so the node trusts the
  file to hold a document of the declared type. The model reads that type off the
  document; a document of another shape is reported like a malformed file.
\<close>

fun as_string :: "json \<Rightarrow> string option" where
  "as_string (JStr s) = Some s"
| "as_string _ = None"

fun as_number :: "json \<Rightarrow> real option" where
  "as_number (JNum n) = Some n"
| "as_number _ = None"

fun as_bool :: "json \<Rightarrow> bool option" where
  "as_bool (JBool b) = Some b"
| "as_bool _ = None"

fun as_array :: "json \<Rightarrow> json list option" where
  "as_array (JArr xs) = Some xs"
| "as_array _ = None"

definition optional :: "(json \<Rightarrow> 'a option) \<Rightarrow> json option \<Rightarrow> 'a option option" where
  "optional dec v = (case v of None \<Rightarrow> Some None | Some j \<Rightarrow> map_option Some (dec j))"

definition step_status_of_name :: "string \<Rightarrow> step_status option" where
  "step_status_of_name s =
     (if s = ''pending'' then Some step_pending
      else if s = ''in_progress'' then Some step_in_progress
      else if s = ''completed'' then Some step_completed
      else if s = ''failed'' then Some step_failed
      else None)"

definition plan_status_of_name :: "string \<Rightarrow> plan_status option" where
  "plan_status_of_name s =
     (if s = ''draft'' then Some draft
      else if s = ''approved'' then Some approved
      else if s = ''executing'' then Some executing
      else if s = ''completed'' then Some completed
      else if s = ''failed'' then Some failed
      else None)"

definition security_mode_of_name :: "string \<Rightarrow> security_mode option" where
  "security_mode_of_name s =
     (if s = ''safe'' then Some safe
      else if s = ''yolo'' then Some yolo
      else if s = ''sandbox'' then Some sandbox
      else None)"

definition step_of_json :: "json \<Rightarrow> ExecutionStep option" where
  "step_of_json j =
     (case (field j ''id'', field j ''description'',
            optional as_array (field j ''files''),
            optional as_number (field j ''estimated_duration''),
            optional (\<lambda>v. Option.bind (as_string v) step_status_of_name) (field j ''status'')) of
        (Some i, Some d, Some fl, Some du, Some st) \<Rightarrow>
          Some \<lparr>step_id = i, step_description = d, command = field j ''command'',
                files = fl, estimated_duration = du, step_status = st\<rparr>
      | _ \<Rightarrow> None)"

definition tools_of_json :: "json \<Rightarrow> ToolsConfig option" where
  "tools_of_json j =
     (case j of
        JObj kvs \<Rightarrow>
          (case (optional (\<lambda>v. Option.bind (as_array v) (\<lambda>xs. those (map as_string xs)))
                          (field j ''enabledTools''),
                 optional (\<lambda>v. Option.bind (as_string v) security_mode_of_name)
                          (field j ''securityMode''),
                 optional as_bool (field j ''checkpointing'')) of
             (Some e, Some s, Some c) \<Rightarrow>
               Some \<lparr>enabledTools = e, securityMode = s, checkpointing = c\<rparr>
           | _ \<Rightarrow> None)
      | _ \<Rightarrow> None)"

definition configuration_of_json :: "json \<Rightarrow> plan_configuration option" where
  "configuration_of_json j =
     (case j of
        JObj kvs \<Rightarrow>
          (case (optional as_string (field j ''model''),
                 optional as_string (field j ''projectPath''),
                 optional tools_of_json (field j ''toolsConfig'')) of
             (Some m, Some pp, Some t) \<Rightarrow>
               Some \<lparr>cfg_model = m, cfg_projectPath = pp, cfg_toolsConfig = t\<rparr>
           | _ \<Rightarrow> None)
      | _ \<Rightarrow> None)"

definition plan_of_json :: "json \<Rightarrow> ExecutionPlan option" where
  "plan_of_json j =
     (case (Option.bind (field j ''id'') as_string,
            field j ''title'', field j ''description'',
            Option.bind (Option.bind (field j ''steps'') as_array)
                        (\<lambda>xs. those (map step_of_json xs)),
            Option.bind (field j ''created_at'') as_number,
            Option.bind (field j ''modified_at'') as_number,
            Option.bind (Option.bind (field j ''status'') as_string) plan_status_of_name,
            optional as_string (field j ''original_prompt''),
            optional configuration_of_json (field j ''configuration'')) of
        (Some i, Some t, Some d, Some ss, Some c, Some m, Some st, Some op, Some cf) \<Rightarrow>
          Some \<lparr>plan_id = i, title = t, description = d, steps = ss, created_at = c,
                modified_at = m, status = st, original_prompt = op, configuration = cf\<rparr>
      | _ \<Rightarrow> None)"

subsection \<open>The world outside the node\<close>

text \<open>
  A path is the list of its components, so \<^verbatim>\<open>path.join(a, b)\<close> is \<open>a @ [b]\<close>; a plan
  id is taken as one component of a file name. The file system maps a path to a directory
  or to a regular file with its text. The operations are those of \<^verbatim>\<open>fs.promises\<close> that
  the node calls, failing for the structural reasons a real file system has; permissions
  and device errors are not modelled.
\<close>

type_synonym path = "string list"

datatype node = Dir | File string

type_synonym filesystem = "path \<Rightarrow> node option"

datatype errno = ENOENT | EEXIST | ENOTDIR | EISDIR

fun errno_message :: "errno \<Rightarrow> string" where
  "errno_message ENOENT = ''ENOENT''"
| "errno_message EEXIST = ''EEXIST''"
| "errno_message ENOTDIR = ''ENOTDIR''"
| "errno_message EISDIR = ''EISDIR''"

fun is_file :: "node option \<Rightarrow> bool" where
  "is_file (Some (File _)) = True"
| "is_file _ = False"

text \<open>\<^verbatim>\<open>fs.mkdir(p, { recursive: true })\<close>\<close>

definition mkdir_recursive :: "path \<Rightarrow> filesystem \<Rightarrow> errno + filesystem" where
  "mkdir_recursive p f =
     (if \<exists>q \<in> set (prefixes p). is_file (f q)
      then Inl (if is_file (f p) then EEXIST else ENOTDIR)
      else Inr (\<lambda>q. if prefix q p then Some Dir else f q))"

text \<open>\<^verbatim>\<open>fs.writeFile(p, text, 'utf8')\<close>\<close>

definition writeFile :: "path \<Rightarrow> string \<Rightarrow> filesystem \<Rightarrow> errno + filesystem" where
  "writeFile p text f =
     (case f p of
        Some Dir \<Rightarrow> Inl EISDIR
      | _ \<Rightarrow>
        (case f (butlast p) of
           Some Dir \<Rightarrow> Inr (f(p \<mapsto> File text))
         | Some (File _) \<Rightarrow> Inl ENOTDIR
         | None \<Rightarrow> Inl ENOENT))"

text \<open>\<^verbatim>\<open>fs.readFile(p, 'utf8')\<close>; an absent path reads as \<^verbatim>\<open>ENOENT\<close>, whatever is above it.\<close>

definition readFile :: "path \<Rightarrow> filesystem \<Rightarrow> errno + string" where
  "readFile p f =
     (case f p of
        None \<Rightarrow> Inl ENOENT
      | Some Dir \<Rightarrow> Inl EISDIR
      | Some (File text) \<Rightarrow> Inr text)"

text \<open>\<^verbatim>\<open>fs.rm(p, { recursive: true, force: true })\<close>: the path and everything below it.\<close>

definition rm_recursive_force :: "path \<Rightarrow> filesystem \<Rightarrow> filesystem" where
  "rm_recursive_force p f = (\<lambda>q. if prefix p q then None else f q)"

definition path_string :: "path \<Rightarrow> string" where
  "path_string p = concat (map (\<lambda>c. CHR ''/'' # c) p)"

text \<open>One call of \<^verbatim>\<open>spawn('gemini', args, { cwd, env })\<close>, and what the process then does.\<close>

record spawn_call =
  argv :: "string list"
  spawn_cwd :: path
  spawn_env :: "(string \<times> string) list"

datatype chunk = Stdout string real | Stderr string real

datatype proc_outcome =
    Threw string
  | StartFailed string
  | Exited "int option" "chunk list" real
  | TimedOut "chunk list"

text \<open>
  \<open>Threw\<close>: \<^verbatim>\<open>spawn\<close> itself throws. \<open>StartFailed\<close>: the \<^verbatim>\<open>'error'\<close> event. \<open>Exited\<close>: the
  \<^verbatim>\<open>'close'\<close> event with the exit code (\<^verbatim>\<open>null\<close> after a signal), the output chunks in
  arrival order with their arrival times, and the elapsed time. \<open>TimedOut\<close>: the timer
  fires first; the \<^verbatim>\<open>'close'\<close> event that follows the kill finds the promise settled
  and the configuration directory already removed.
\<close>

datatype connection_type = conn_command | conn_http

record McpServer =
  srv_name :: "string option"
  srv_connectionType :: connection_type
  srv_command :: "string option"
  srv_args :: "string option"
  srv_httpUrl :: "string option"
  srv_headers :: "string option"
  srv_env :: "string option"
  srv_cwd :: "string option"
  srv_timeout :: real
  srv_trust :: bool
  srv_includeTools :: "string option"
  srv_excludeTools :: "string option"

text \<open>
  What the node takes from its surroundings. \<open>String_of\<close> is the string conversion of a
  template literal; \<open>iso_time t\<close> is \<^verbatim>\<open>new Date(t).toISOString()\<close>; \<open>random36 n\<close> is
  \<^verbatim>\<open>Math.random().toString(36)\<close> at the \<open>n\<close>-th draw; \<open>gemini n call\<close> is the behaviour
  of the process started by the \<open>n\<close>-th call of \<^verbatim>\<open>spawn\<close>; \<open>settings_text\<close> is the text of
  \<^verbatim>\<open>settings.json\<close> that \<^verbatim>\<open>createGeminiConfig\<close> computes from the server descriptors
  (its content plays no part below, only that the file is written).
\<close>

record runtime =
  JSON_parse :: "string \<Rightarrow> string + json"
  JSON_stringify :: "json \<Rightarrow> string"
  String_of :: "json \<Rightarrow> string"
  iso_time :: "real \<Rightarrow> string"
  random36 :: "nat \<Rightarrow> string"
  gemini :: "nat \<Rightarrow> spawn_call \<Rightarrow> proc_outcome"
  settings_text :: "McpServer list \<Rightarrow> string"
  process_cwd :: path
  process_env :: "(string \<times> string) list"

record world =
  fs :: filesystem
  clock :: real
  spawn_calls :: "spawn_call list"
  random_draws :: nat

subsection \<open>Errors and sequencing\<close>

datatype js_error =
    ApplicationError string
  | NodeOperationError string
  | TypeError string
  | SpawnError string

fun message :: "js_error \<Rightarrow> string" where
  "message (ApplicationError m) = m"
| "message (NodeOperationError m) = m"
| "message (TypeError m) = m"
| "message (SpawnError m) = m"

type_synonym 'a io = "world \<Rightarrow> (js_error + 'a) \<times> world"

definition return_ok :: "'a \<Rightarrow> 'a io" where
  "return_ok x = (\<lambda>w. (Inr x, w))"

definition throw :: "js_error \<Rightarrow> 'a io" where
  "throw e = (\<lambda>w. (Inl e, w))"

definition and_then :: "'a io \<Rightarrow> ('a \<Rightarrow> 'b io) \<Rightarrow> 'b io" where
  "and_then m k = (\<lambda>w. case m w of (Inl e, w') \<Rightarrow> (Inl e, w') | (Inr x, w') \<Rightarrow> k x w')"

definition try_catch :: "'a io \<Rightarrow> (js_error \<Rightarrow> 'a io) \<Rightarrow> 'a io" where
  "try_catch m h = (\<lambda>w. case m w of (Inl e, w') \<Rightarrow> h e w' | (Inr x, w') \<Rightarrow> (Inr x, w'))"

definition Date_now :: "real io" where
  "Date_now = (\<lambda>w. (Inr (clock w), w))"

subsection \<open>PlanStore\<close>

definition plansDir :: "path \<Rightarrow> path" where
  "plansDir workingDirectory = workingDirectory @ [''.gemini'', ''plans'']"

definition planPath :: "path \<Rightarrow> string \<Rightarrow> path" where
  "planPath workingDirectory planId = plansDir workingDirectory @ [planId @ ''.json'']"

definition ensurePlansDirectory :: "path \<Rightarrow> path io" where
  "ensurePlansDirectory workingDirectory = (\<lambda>w.
     case mkdir_recursive (plansDir workingDirectory) (fs w) of
       Inr f \<Rightarrow> (Inr (plansDir workingDirectory), w\<lparr>fs := f\<rparr>)
     | Inl e \<Rightarrow>
         (Inl (ApplicationError (''Failed to create plans directory: '' @ errno_message e)), w))"

definition savePlan :: "runtime \<Rightarrow> ExecutionPlan \<Rightarrow> path \<Rightarrow> unit io" where
  "savePlan rt plan workingDirectory =
     and_then (ensurePlansDirectory workingDirectory) (\<lambda>dir w.
       case writeFile (dir @ [plan_id plan @ ''.json''])
                      (JSON_stringify rt (plan_to_json plan)) (fs w) of
         Inr f \<Rightarrow> (Inr (), w\<lparr>fs := f\<rparr>)
       | Inl e \<Rightarrow> (Inl (ApplicationError (''Failed to save plan: '' @ errno_message e)), w))"

definition loadPlan :: "runtime \<Rightarrow> string \<Rightarrow> path \<Rightarrow> ExecutionPlan option io" where
  "loadPlan rt planId workingDirectory = (\<lambda>w.
     case readFile (planPath workingDirectory planId) (fs w) of
       Inl ENOENT \<Rightarrow> (Inr None, w)
     | Inl e \<Rightarrow> (Inl (ApplicationError (''Failed to load plan: '' @ errno_message e)), w)
     | Inr planContent \<Rightarrow>
         (case JSON_parse rt planContent of
            Inl m \<Rightarrow> (Inl (ApplicationError (''Failed to load plan: '' @ m)), w)
          | Inr j \<Rightarrow>
              (case plan_of_json j of
                 Some plan \<Rightarrow> (Inr (Some plan), w)
               | None \<Rightarrow>
                   (Inl (ApplicationError (''Failed to load plan: not an execution plan'')), w))))"

subsection \<open>ConfigMaterializer\<close>

definition createGeminiConfig :: "runtime \<Rightarrow> McpServer list \<Rightarrow> path \<Rightarrow> (path \<times> path) io" where
  "createGeminiConfig rt servers workingDirectory = (\<lambda>w.
     let configDir = workingDirectory @ [''.gemini''];
         settingsPath = configDir @ [''settings.json'']
     in case mkdir_recursive configDir (fs w) of
          Inl e \<Rightarrow>
            (Inl (NodeOperationError
                    (''Failed to create config directory: '' @ errno_message e)), w)
        | Inr f \<Rightarrow>
            (case writeFile settingsPath (settings_text rt servers) f of
               Inl e \<Rightarrow>
                 (Inl (NodeOperationError
                         (''Failed to write settings file: '' @ errno_message e)),
                  w\<lparr>fs := f\<rparr>)
             | Inr f' \<Rightarrow> (Inr (configDir, settingsPath), w\<lparr>fs := f'\<rparr>)))"

text \<open>The removal cannot fail in this file system, so the branch that only logs a failed
  cleanup has no counterpart.\<close>

definition cleanupGeminiConfig :: "path \<Rightarrow> world \<Rightarrow> world" where
  "cleanupGeminiConfig configDir w = w\<lparr>fs := rm_recursive_force configDir (fs w)\<rparr>"

subsection \<open>ProcessRunner\<close>

datatype message_type = msg_user | msg_assistant | msg_system | msg_error

record GeminiMessage =
  msg_type :: message_type
  content :: string
  timestamp :: real

record GeminiResponse =
  messages :: "GeminiMessage list"
  result :: string
  success :: bool
  duration_ms :: real
  error :: "string option"

record options =
  cwd :: "path option"
  apiKey :: "string option"
  useVertexAI :: "bool option"
  model :: "string option"
  systemPrompt :: "string option"
  timeout :: "nat option"
  debug :: "bool option"
  toolsConfig :: "ToolsConfig option"
  mcpServers :: "McpServer list option"

definition set_env :: "string \<Rightarrow> string \<Rightarrow> (string \<times> string) list \<Rightarrow> (string \<times> string) list" where
  "set_env k v env = (k, v) # filter (\<lambda>kv. fst kv \<noteq> k) env"

definition spawn_environment :: "runtime \<Rightarrow> options \<Rightarrow> (string \<times> string) list" where
  "spawn_environment rt options =
     (let env0 = process_env rt;
          env1 = (if nonempty (apiKey options)
                  then set_env ''GEMINI_API_KEY'' (str_or (apiKey options) []) env0 else env0);
          env2 = (if is_true (useVertexAI options)
                  then (let e = set_env ''GOOGLE_GENAI_USE_VERTEXAI'' ''true'' env1
                        in if nonempty (apiKey options)
                           then set_env ''GOOGLE_API_KEY'' (str_or (apiKey options) []) e else e)
                  else env1)
      in env2)"

definition finalPrompt :: "options \<Rightarrow> string \<Rightarrow> string" where
  "finalPrompt options prompt =
     (case systemPrompt options of
        Some sp \<Rightarrow> if sp \<noteq> [] then sp @ ''\<newline>\<newline>'' @ prompt else prompt
      | None \<Rightarrow> prompt)"

text \<open>The argument vector, lines 1277 to 1315.\<close>

definition command_arguments :: "options \<Rightarrow> string \<Rightarrow> string list" where
  "command_arguments options prompt =
     (case model options of
        Some m \<Rightarrow> if m \<noteq> [] then [''--model'', m] else []
      | None \<Rightarrow> [])
     @ (case toolsConfig options of
          Some tc \<Rightarrow>
            (case securityMode tc of
               Some yolo \<Rightarrow> [''--yolo'']
             | Some sandbox \<Rightarrow> [''--sandbox'']
             | _ \<Rightarrow> [])
        | None \<Rightarrow> [])
     @ (case toolsConfig options of
          Some tc \<Rightarrow> if is_true (checkpointing tc) then [''-c''] else []
        | None \<Rightarrow> [])
     @ (if is_true (debug options) then [''--debug''] else [])
     @ [''-p'', finalPrompt options prompt]"

definition timeout_seconds :: "options \<Rightarrow> nat" where
  "timeout_seconds options = (case timeout options of Some t \<Rightarrow> if t \<noteq> 0 then t else 300 | None \<Rightarrow> 300)"

definition working_directory :: "runtime \<Rightarrow> path option \<Rightarrow> path" where
  "working_directory rt dir = (case dir of Some d \<Rightarrow> d | None \<Rightarrow> process_cwd rt)"

fun chunk_message :: "chunk \<Rightarrow> GeminiMessage" where
  "chunk_message (Stdout text arrived) = \<lparr>msg_type = msg_assistant, content = text, timestamp = arrived\<rparr>"
| "chunk_message (Stderr text arrived) = \<lparr>msg_type = msg_error, content = text, timestamp = arrived\<rparr>"

fun stdout_text :: "chunk list \<Rightarrow> string" where
  "stdout_text [] = []"
| "stdout_text (Stdout text arrived # cs) = text @ stdout_text cs"
| "stdout_text (Stderr text arrived # cs) = stdout_text cs"

definition exit_code_text :: "int option \<Rightarrow> string" where
  "exit_code_text code = (case code of None \<Rightarrow> ''null'' | Some c \<Rightarrow> show_int c)"

definition runGeminiCLI :: "runtime \<Rightarrow> string \<Rightarrow> options \<Rightarrow> GeminiResponse io" where
  "runGeminiCLI rt prompt options = (\<lambda>w.
     let startTime = clock w;
         env = spawn_environment rt options;
         workingDirectory = working_directory rt (cwd options);
         servers = (case mcpServers options of Some ss \<Rightarrow> ss | None \<Rightarrow> [])
     in case (if servers \<noteq> []
              then (case createGeminiConfig rt servers workingDirectory w of
                      (Inl e, w1) \<Rightarrow> (Inl e, w1)
                    | (Inr configResult, w1) \<Rightarrow> (Inr (Some (fst configResult)), w1))
              else (Inr None, w)) of
          (Inl e, w1) \<Rightarrow> (Inl e, w1)
        | (Inr configDir, w1) \<Rightarrow>
            (let call = \<lparr>argv = command_arguments options prompt,
                         spawn_cwd = workingDirectory, spawn_env = env\<rparr>;
                 w2 = w1\<lparr>spawn_calls := spawn_calls w1 @ [call]\<rparr>;
                 cleanup = (\<lambda>v. case configDir of
                                   Some d \<Rightarrow> cleanupGeminiConfig d v
                                 | None \<Rightarrow> v);
                 userMessage = \<lparr>msg_type = msg_user, content = finalPrompt options prompt,
                                timestamp = startTime\<rparr>
             in case gemini rt (length (spawn_calls w1)) call of
                  Threw m \<Rightarrow> (Inl (SpawnError m), cleanup w2)
                | StartFailed m \<Rightarrow>
                    (Inl (ApplicationError (''Failed to start Gemini CLI: '' @ m)), cleanup w2)
                | TimedOut chunks \<Rightarrow>
                    (Inl (ApplicationError
                            (''Gemini CLI timed out after ''
                             @ show_nat (timeout_seconds options) @ '' seconds'')),
                     cleanup (w2\<lparr>clock := startTime + real (timeout_seconds options) * 1000\<rparr>))
                | Exited code chunks elapsed \<Rightarrow>
                    (Inr \<lparr>messages = userMessage # map chunk_message chunks,
                          result = trim (stdout_text chunks),
                          success = (code = Some 0),
                          duration_ms = elapsed,
                          error = (if code = Some 0 then None
                                   else Some (''Gemini CLI exited with code ''
                                              @ exit_code_text code))\<rparr>,
                     cleanup (w2\<lparr>clock := startTime + elapsed\<rparr>))))"

subsection \<open>Instruction texts\<close>

text \<open>The template literals of the node, line by line.\<close>

definition planningSystemPrompt :: "string option \<Rightarrow> string" where
  \<open>planningSystemPrompt additional =
     ''You are an AI assistant that creates detailed execution plans. \<newline>''
     @ ''When given a task, you must respond with a structured execution plan in the following JSON format:\<newline>''
     @ ''\<newline>''
     @ ''{\<newline>''
     @ ''  "title": "Brief title for the task",\<newline>''
     @ ''  "description": "Detailed description of what needs to be accomplished",\<newline>''
     @ ''  "steps": [\<newline>''
     @ ''    {\<newline>''
     @ ''      "id": "step_1", \<newline>''
     @ ''      "description": "Clear description of what this step does",\<newline>''
     @ ''      "command": "optional: specific command to run",\<newline>''
     @ ''      "files": ["optional: array of files this step will work with"],\<newline>''
     @ ''      "estimated_duration": 300\<newline>''
     @ ''    }\<newline>''
     @ ''  ]\<newline>''
     @ ''}\<newline>''
     @ ''\<newline>''
     @ ''Break down complex tasks into specific, actionable steps. Each step should be clear and executable.\<newline>''
     @ ''Do not execute anything - only create the plan. Include estimated duration in seconds for each step.\<newline>''
     @ ''Be specific about files that will be created, modified, or analyzed.\<newline>''
     @ ''\<newline>''
     @ (case additional of
          Some s \<Rightarrow> if s \<noteq> [] then ''\<newline>\<newline>Additional context: '' @ s else []
        | None \<Rightarrow> [])\<close>

definition planningPrompt :: "string \<Rightarrow> string" where
  \<open>planningPrompt prompt =
     ''Create an execution plan for the following task:\<newline>''
     @ ''\<newline>''
     @ prompt
     @ ''\<newline>''
     @ ''\<newline>''
     @ ''Respond ONLY with the JSON structure described in the system prompt. Do not include any other text, explanations, or markdown formatting.''\<close>

definition editingSystemPrompt :: string where
  \<open>editingSystemPrompt =
     ''You are an AI assistant that modifies execution plans based on user instructions.\<newline>''
     @ ''\<newline>''
     @ ''You will receive:\<newline>''
     @ ''1. An existing execution plan in JSON format\<newline>''
     @ ''2. Instructions for how to modify the plan\<newline>''
     @ ''\<newline>''
     @ ''You must respond with the modified plan in the same JSON format:\<newline>''
     @ ''\<newline>''
     @ ''{\<newline>''
     @ ''  "title": "Brief title for the task",\<newline>''
     @ ''  "description": "Detailed description of what needs to be accomplished", \<newline>''
     @ ''  "steps": [\<newline>''
     @ ''    {\<newline>''
     @ ''      "id": "step_1",\<newline>''
     @ ''      "description": "Clear description of what this step does",\<newline>''
     @ ''      "command": "optional: specific command to run",\<newline>''
     @ ''      "files": ["optional: array of files this step will work with"],\<newline>''
     @ ''      "estimated_duration": 300\<newline>''
     @ ''    }\<newline>''
     @ ''  ]\<newline>''
     @ ''}\<newline>''
     @ ''\<newline>''
     @ ''Modify only what is requested in the instructions. Keep the existing structure and IDs where possible.\<newline>''
     @ ''Respond ONLY with the JSON structure. Do not include any other text or explanations.''\<close>

definition editingPrompt :: "runtime \<Rightarrow> ExecutionPlan \<Rightarrow> string \<Rightarrow> string" where
  \<open>editingPrompt rt existingPlan editInstructions =
     ''Here is the existing execution plan:\<newline>''
     @ ''\<newline>''
     @ JSON_stringify rt (JObj
         [(''title'', title existingPlan),
          (''description'', description existingPlan),
          (''steps'', JArr (map (\<lambda>step. JObj (
              [(''id'', step_id step), (''description'', step_description step)]
              @ opt ''command'' (command step)
              @ opt ''files'' (map_option JArr (files step))
              @ opt ''estimated_duration'' (map_option JNum (estimated_duration step))))
            (steps existingPlan)))])
     @ ''\<newline>''
     @ ''\<newline>''
     @ ''Please modify this plan according to these instructions:\<newline>''
     @ ''\<newline>''
     @ editInstructions
     @ ''\<newline>''
     @ ''\<newline>''
     @ ''Respond ONLY with the modified JSON structure.''\<close>

text \<open>String conversion inside a template literal, and \<^verbatim>\<open>Array.prototype.join\<close>.\<close>

definition to_String :: "runtime \<Rightarrow> json \<Rightarrow> string" where
  "to_String rt v = (case v of JStr s \<Rightarrow> s | _ \<Rightarrow> String_of rt v)"

fun join :: "string \<Rightarrow> string list \<Rightarrow> string" where
  "join sep [] = []"
| "join sep [x] = x"
| "join sep (x # y # ys) = x @ sep @ join sep (y # ys)"

definition join_item :: "runtime \<Rightarrow> json \<Rightarrow> string" where
  "join_item rt v = (if v = JNull then [] else to_String rt v)"

definition executionPrompt :: "runtime \<Rightarrow> ExecutionStep \<Rightarrow> string" where
  \<open>executionPrompt rt step =
     ''Execute the following step from an approved plan:\<newline>''
     @ ''\<newline>''
     @ ''Step Description: ''
     @ to_String rt (step_description step)
     @ ''\<newline>''
     @ (case command step of
          Some c \<Rightarrow> if truthy c then ''Suggested Command: '' @ to_String rt c else []
        | None \<Rightarrow> [])
     @ ''\<newline>''
     @ (case files step of
          Some fl \<Rightarrow> ''Files to work with: '' @ join '', '' (map (join_item rt) fl)
        | None \<Rightarrow> [])
     @ ''\<newline>''
     @ ''\<newline>''
     @ ''Complete this step thoroughly. If this involves code changes, make the actual changes. If it involves analysis, provide detailed analysis.''\<close>

subsection \<open>PlanEngine\<close>

definition replace_first :: "char \<Rightarrow> char \<Rightarrow> string \<Rightarrow> string" where
  "replace_first a b s =
     (case dropWhile (\<lambda>c. c \<noteq> a) s of
        [] \<Rightarrow> s
      | _ # rest \<Rightarrow> takeWhile (\<lambda>c. c \<noteq> a) s @ b # rest)"

definition generatePlanId :: "runtime \<Rightarrow> string io" where
  "generatePlanId rt = (\<lambda>w.
     let iso = iso_time rt (clock w);
         dashed = map (\<lambda>c. if c = CHR '':'' \<or> c = CHR ''.'' then CHR ''-'' else c) iso;
         underscored = replace_first CHR ''T'' CHR ''_'' dashed;
         timestamp = take (length underscored - 5) underscored;
         randomSuffix = take 6 (drop 2 (random36 rt (random_draws w)))
     in (Inr (''plan_'' @ timestamp @ ''_'' @ randomSuffix),
         w\<lparr>random_draws := Suc (random_draws w)\<rparr>))"

text \<open>
  \<^verbatim>\<open>result.match(/\{[\s\S]*\}/)\<close>: the match starts at the first opening brace and, the
  star being greedy, ends at the last closing brace after it.
\<close>

definition jsonMatch :: "string \<Rightarrow> string option" where
  "jsonMatch s =
     (case dropWhile (\<lambda>c. c \<noteq> CHR ''{'') s of
        [] \<Rightarrow> None
      | _ # body \<Rightarrow>
          (if CHR ''}'' \<in> set body
           then Some (CHR ''{'' # rev (dropWhile (\<lambda>c. c \<noteq> CHR ''}'') (rev body)))
           else None))"

text \<open>Lines 957 to 967 and 1088 to 1097; \<open>what\<close> is the prefix of the error message.\<close>

definition parse_plan_data :: "runtime \<Rightarrow> string \<Rightarrow> string \<Rightarrow> js_error + json" where
  "parse_plan_data rt what text =
     (case jsonMatch text of
        None \<Rightarrow> Inl (ApplicationError (what @ ''No JSON structure found in Gemini response''))
      | Some m \<Rightarrow>
          (case JSON_parse rt m of
             Inl syntaxError \<Rightarrow> Inl (ApplicationError (what @ syntaxError))
           | Inr planData \<Rightarrow> Inr planData))"

text \<open>Lines 970 to 972 and 1100 to 1102; reading a property of \<^verbatim>\<open>null\<close> throws.\<close>

definition required_fields :: "string \<Rightarrow> json \<Rightarrow> js_error + (json \<times> json \<times> json list)" where
  "required_fields invalid planData =
     (if planData = JNull then Inl (TypeError ''Cannot read properties of null'')
      else (case (field planData ''title'', field planData ''description'',
                  field planData ''steps'') of
              (Some t, Some d, Some (JArr ss)) \<Rightarrow>
                if truthy t \<and> truthy d then Inr (t, d, ss) else Inl (ApplicationError invalid)
            | _ \<Rightarrow> Inl (ApplicationError invalid)))"

definition validated_step :: "nat \<Rightarrow> json \<Rightarrow> js_error + ExecutionStep" where
  "validated_step index step =
     (if step = JNull then Inl (TypeError ''Cannot read properties of null'')
      else Inr \<lparr>step_id = js_or (field step ''id'') (JStr (''step_'' @ show_nat (index + 1))),
                step_description =
                  js_or (field step ''description'') (JStr (''Step '' @ show_nat (index + 1))),
                command = field step ''command'',
                files = (case field step ''files'' of Some (JArr fl) \<Rightarrow> Some fl | _ \<Rightarrow> None),
                estimated_duration =
                  Some (case field step ''estimated_duration'' of Some (JNum n) \<Rightarrow> n | _ \<Rightarrow> 300),
                step_status = Some step_pending\<rparr>)"

fun validatedSteps_from :: "nat \<Rightarrow> json list \<Rightarrow> js_error + ExecutionStep list" where
  "validatedSteps_from index [] = Inr []"
| "validatedSteps_from index (step # others) =
     (case validated_step index step of
        Inl e \<Rightarrow> Inl e
      | Inr v \<Rightarrow>
          (case validatedSteps_from (Suc index) others of
             Inl e \<Rightarrow> Inl e
           | Inr vs \<Rightarrow> Inr (v # vs)))"

definition validatedSteps :: "json list \<Rightarrow> js_error + ExecutionStep list" where
  "validatedSteps planSteps = validatedSteps_from 0 planSteps"

definition lift :: "js_error + 'a \<Rightarrow> 'a io" where
  "lift r = (case r of Inl e \<Rightarrow> throw e | Inr x \<Rightarrow> return_ok x)"

text \<open>The options of the planning call: \<^verbatim>\<open>{ ...options, systemPrompt: planningSystemPrompt }\<close>.\<close>

definition planning_options :: "options \<Rightarrow> options" where
  "planning_options options =
     options\<lparr>systemPrompt := Some (planningSystemPrompt (systemPrompt options))\<rparr>"

definition generatePlanWithGemini :: "runtime \<Rightarrow> string \<Rightarrow> options \<Rightarrow> ExecutionPlan io" where
  "generatePlanWithGemini rt prompt options =
     and_then (generatePlanId rt) (\<lambda>planId.
     and_then Date_now (\<lambda>timestamp.
     try_catch
       (and_then (runGeminiCLI rt (planningPrompt prompt) (planning_options options))
          (\<lambda>response.
        if \<not> success response
        then throw (ApplicationError
                      (''Failed to generate plan: '' @ str_or (error response) ''Unknown error''))
        else
        and_then (lift (parse_plan_data rt ''Failed to parse plan structure: ''
                          (result response))) (\<lambda>planData.
        and_then (lift (required_fields ''Invalid plan structure: missing required fields''
                          planData)) (\<lambda>(planTitle, planDescription, planSteps).
        and_then (lift (validatedSteps planSteps)) (\<lambda>validated.
        let executionPlan =
              \<lparr>plan_id = planId, title = planTitle, description = planDescription,
               steps = validated, created_at = timestamp, modified_at = timestamp,
               status = draft, original_prompt = Some prompt,
               configuration = Some \<lparr>cfg_model = model options,
                                      cfg_projectPath = map_option path_string (cwd options),
                                      cfg_toolsConfig = toolsConfig options\<rparr>\<rparr>
        in and_then (savePlan rt executionPlan (working_directory rt (cwd options)))
             (\<lambda>_. return_ok executionPlan))))))
       (\<lambda>e. throw (ApplicationError (''Plan generation failed: '' @ message e)))))"

definition editPlanWithGemini :: "runtime \<Rightarrow> string \<Rightarrow> string \<Rightarrow> options \<Rightarrow> ExecutionPlan io" where
  "editPlanWithGemini rt planId editInstructions options =
     (let workingDirectory = working_directory rt (cwd options) in
      and_then (loadPlan rt planId workingDirectory) (\<lambda>loaded.
      case loaded of
        None \<Rightarrow> throw (ApplicationError (''Plan with ID '' @ planId @ '' not found''))
      | Some existingPlan \<Rightarrow>
          try_catch
            (and_then (runGeminiCLI rt (editingPrompt rt existingPlan editInstructions)
                         (options\<lparr>systemPrompt := Some editingSystemPrompt\<rparr>)) (\<lambda>response.
             if \<not> success response
             then throw (ApplicationError
                           (''Failed to edit plan: '' @ str_or (error response) ''Unknown error''))
             else
             and_then (lift (parse_plan_data rt ''Failed to parse edited plan structure: ''
                               (result response))) (\<lambda>planData.
             and_then (lift (required_fields
                               ''Invalid edited plan structure: missing required fields''
                               planData)) (\<lambda>(planTitle, planDescription, planSteps).
             and_then (lift (validatedSteps planSteps)) (\<lambda>validated.
             and_then Date_now (\<lambda>now.
             let updatedPlan =
                   existingPlan\<lparr>title := planTitle, description := planDescription,
                                steps := validated, modified_at := now, status := draft\<rparr>
             in and_then (savePlan rt updatedPlan workingDirectory)
                  (\<lambda>_. return_ok updatedPlan)))))))
            (\<lambda>e. throw (ApplicationError (''Plan editing failed: '' @ message e)))))"

subsection \<open>PlanExecutor\<close>

text \<open>
  The loop of \<^verbatim>\<open>executePlan\<close> mutates the step objects of the plan in place and may leave
  by \<^verbatim>\<open>break\<close> or by an exception of \<^verbatim>\<open>savePlan\<close>. The model threads the local
  variables through the iterations and returns them together with the exception, if any,
  so that the \<^verbatim>\<open>catch\<close> block sees the plan as mutated so far.
\<close>

record loop_state =
  current_plan :: ExecutionPlan
  results :: "GeminiResponse list"
  allStepsSuccessful :: bool

definition set_step_status :: "nat \<Rightarrow> ExecutionStep \<Rightarrow> step_status \<Rightarrow> ExecutionPlan \<Rightarrow> ExecutionPlan" where
  "set_step_status i step s plan =
     plan\<lparr>steps := (steps plan)[i := step\<lparr>step_status := Some s\<rparr>]\<rparr>"

fun execute_steps ::
  "runtime \<Rightarrow> options \<Rightarrow> path \<Rightarrow> (nat \<times> ExecutionStep) list \<Rightarrow> loop_state
     \<Rightarrow> world \<Rightarrow> (js_error option \<times> loop_state) \<times> world" where
  "execute_steps rt options workingDirectory [] st w = ((None, st), w)"
| "execute_steps rt options workingDirectory ((i, step) # remaining) st w =
     (let plan1 = set_step_status i step step_in_progress (current_plan st) in
      case savePlan rt plan1 workingDirectory w of
        (Inl e, w1) \<Rightarrow> ((Some e, st\<lparr>current_plan := plan1\<rparr>), w1)
      | (Inr _, w1) \<Rightarrow>
          (case runGeminiCLI rt (executionPrompt rt step) options w1 of
             (Inr stepResult, w2) \<Rightarrow>
               if success stepResult
               then (let st2 = \<lparr>current_plan = set_step_status i step step_completed plan1,
                                 results = results st @ [stepResult],
                                 allStepsSuccessful = allStepsSuccessful st\<rparr>
                     in case savePlan rt (current_plan st2) workingDirectory w2 of
                          (Inl e, w3) \<Rightarrow> ((Some e, st2), w3)
                        | (Inr _, w3) \<Rightarrow>
                            execute_steps rt options workingDirectory remaining st2 w3)
               else ((None, \<lparr>current_plan = set_step_status i step step_failed plan1,
                              results = results st @ [stepResult],
                              allStepsSuccessful = False\<rparr>), w2)
           | (Inl stepError, w2) \<Rightarrow>
               ((None, \<lparr>current_plan = set_step_status i step step_failed plan1,
                         results = results st,
                         allStepsSuccessful = False\<rparr>), w2)))"

text \<open>The \<^verbatim>\<open>catch\<close> block of lines 1222 to 1228.\<close>

definition mark_failed_and_rethrow ::
  "runtime \<Rightarrow> path \<Rightarrow> ExecutionPlan \<Rightarrow> js_error \<Rightarrow> (ExecutionPlan \<times> GeminiResponse list) io" where
  "mark_failed_and_rethrow rt workingDirectory plan e =
     and_then Date_now (\<lambda>now.
     and_then (savePlan rt (plan\<lparr>status := failed, modified_at := now\<rparr>) workingDirectory)
       (\<lambda>_. throw e))"

definition executePlan ::
  "runtime \<Rightarrow> string \<Rightarrow> options \<Rightarrow> (ExecutionPlan \<times> GeminiResponse list) io" where
  "executePlan rt planId options =
     (let workingDirectory = working_directory rt (cwd options) in
      and_then (loadPlan rt planId workingDirectory) (\<lambda>loaded.
      case loaded of
        None \<Rightarrow> throw (ApplicationError (''Plan with ID '' @ planId @ '' not found''))
      | Some plan \<Rightarrow>
          if status plan \<noteq> approved
          then throw (ApplicationError
                        (''Plan must be approved before execution. Current status: ''
                         @ plan_status_name (status plan)))
          else
          and_then Date_now (\<lambda>started.
          let plan0 = plan\<lparr>status := executing, modified_at := started\<rparr> in
          and_then (savePlan rt plan0 workingDirectory) (\<lambda>_ w.
            case execute_steps rt options workingDirectory (enumerate 0 (steps plan0))
                   \<lparr>current_plan = plan0, results = [], allStepsSuccessful = True\<rparr> w of
              ((Some e, st), w1) \<Rightarrow>
                mark_failed_and_rethrow rt workingDirectory (current_plan st) e w1
            | ((None, st), w1) \<Rightarrow>
                (let final = (current_plan st)
                       \<lparr>status := (if allStepsSuccessful st then completed else failed),
                        modified_at := clock w1\<rparr>
                 in case savePlan rt final workingDirectory w1 of
                      (Inr _, w2) \<Rightarrow> (Inr (final, results st), w2)
                    | (Inl e, w2) \<Rightarrow>
                        mark_failed_and_rethrow rt workingDirectory final e w2)))))"

subsection \<open>The cases of the operation switch\<close>


definition approve_plan :: "runtime \<Rightarrow> string \<Rightarrow> path option \<Rightarrow> ExecutionPlan io" where
  "approve_plan rt planId resolvedProjectPath =
     and_then (loadPlan rt planId (working_directory rt resolvedProjectPath)) (\<lambda>loaded.
     case loaded of
       None \<Rightarrow> throw (NodeOperationError (''Plan with ID '' @ planId @ '' not found''))
     | Some planToApprove \<Rightarrow>
         and_then Date_now (\<lambda>now.
         let approvedPlan = planToApprove\<lparr>status := approved, modified_at := now\<rparr> in
         and_then (savePlan rt approvedPlan (working_directory rt resolvedProjectPath))
           (\<lambda>_. return_ok approvedPlan)))"

subsection \<open>Storage that accepts a plan\<close>

text \<open>
  \<^verbatim>\<open>savePlan\<close> fails only for a structural reason: a regular file stands where the plans
  directory or one of its ancestors has to be, or a directory where the plan file has to be.
  \<open>storable f dir planId\<close> says that neither is the case.
\<close>

definition storable :: "filesystem \<Rightarrow> path \<Rightarrow> string \<Rightarrow> bool" where
  "storable f workingDirectory planId \<longleftrightarrow>
     (\<forall>q \<in> set (prefixes (plansDir workingDirectory)). \<not> is_file (f q))
     \<and> f (planPath workingDirectory planId) \<noteq> Some Dir"

text \<open>The same for \<^verbatim>\<open>createGeminiConfig\<close> and its settings file.\<close>

definition configurable :: "filesystem \<Rightarrow> path \<Rightarrow> bool" where
  "configurable f workingDirectory \<longleftrightarrow>
     (\<forall>q \<in> set (prefixes (workingDirectory @ [''.gemini''])). \<not> is_file (f q))
     \<and> f (workingDirectory @ [''.gemini'', ''settings.json'']) \<noteq> Some Dir"

subsection \<open>A concrete runtime and concrete worlds\<close>

text \<open>
  For the examples: a runtime whose printer writes compact JSON (integers for numbers, no
  escapes in strings) and whose parser knows a given table of documents and rejects every
  other text; a working directory \<^verbatim>\<open>/work\<close>; and a stored plan of three steps.
\<close>

definition quote :: "string \<Rightarrow> string" where
  "quote s = CHR 0x22 # s @ [CHR 0x22]"

fun show_json :: "json \<Rightarrow> string"
  and show_items :: "json list \<Rightarrow> string list"
  and show_members :: "(string \<times> json) list \<Rightarrow> string list" where
  "show_json JNull = ''null''"
| "show_json (JBool b) = (if b then ''true'' else ''false'')"
| "show_json (JNum n) = show_int \<lfloor>n\<rfloor>"
| "show_json (JStr s) = quote s"
| "show_json (JArr xs) = ''['' @ join '','' (show_items xs) @ '']''"
| "show_json (JObj kvs) = ''{'' @ join '','' (show_members kvs) @ ''}''"
| "show_items [] = []"
| "show_items (x # xs) = show_json x # show_items xs"
| "show_members [] = []"
| "show_members ((k, v) # kvs) = (quote k @ '':'' @ show_json v) # show_members kvs"

definition demo_parse :: "(string \<times> json) list \<Rightarrow> string \<Rightarrow> string + json" where
  "demo_parse table text =
     (case map_of table text of Some j \<Rightarrow> Inr j | None \<Rightarrow> Inl ''Unexpected token'')"

definition demo_runtime ::
  "(string \<times> json) list \<Rightarrow> (nat \<Rightarrow> spawn_call \<Rightarrow> proc_outcome) \<Rightarrow> runtime" where
  "demo_runtime table agent =
     \<lparr>JSON_parse = demo_parse table, JSON_stringify = show_json, String_of = show_json,
      iso_time = (\<lambda>t. ''2024-01-08T12:34:56.789Z''), random36 = (\<lambda>n. ''0.k3j9x2m4p''),
      gemini = agent, settings_text = (\<lambda>servers. ''{}''),
      process_cwd = [''work''], process_env = []\<rparr>"

definition document :: "ExecutionPlan \<Rightarrow> string \<times> json" where
  "document plan = (show_json (plan_to_json plan), plan_to_json plan)"

definition demo_step :: "string \<Rightarrow> string \<Rightarrow> step_status \<Rightarrow> ExecutionStep" where
  "demo_step name what s =
     \<lparr>step_id = JStr name, step_description = JStr what, command = None, files = None,
      estimated_duration = Some 300, step_status = Some s\<rparr>"

definition demo_plan :: "plan_status \<Rightarrow> step_status list \<Rightarrow> ExecutionPlan" where
  "demo_plan st ss =
     \<lparr>plan_id = ''plan_1'', title = JStr ''Add validation'',
      description = JStr ''Validate the signup form'',
      steps = map2 (\<lambda>(name, what) s. demo_step name what s)
                [(''step_1'', ''Add server-side checks''),
                 (''step_2'', ''Add client-side checks''),
                 (''step_3'', ''Run the tests'')] ss,
      created_at = 1000, modified_at = 1000, status = st,
      original_prompt = Some ''Add input validation to the signup form'',
      configuration = None\<rparr>"

definition empty_fs :: filesystem where
  "empty_fs = (\<lambda>q. if prefix q [''work''] then Some Dir else None)"

definition demo_fs :: "ExecutionPlan \<Rightarrow> filesystem" where
  "demo_fs plan =
     (\<lambda>q. if prefix q [''work'', ''.gemini'', ''plans''] then Some Dir
          else if q = [''work'', ''.gemini'', ''plans'', plan_id plan @ ''.json'']
          then Some (File (show_json (plan_to_json plan)))
          else None)"

definition demo_world :: "filesystem \<Rightarrow> world" where
  "demo_world f = \<lparr>fs = f, clock = 5000, spawn_calls = [], random_draws = 0\<rparr>"

definition no_options :: options where
  "no_options =
     \<lparr>cwd = Some [''work''], apiKey = None, useVertexAI = None, model = None,
      systemPrompt = None, timeout = None, debug = None, toolsConfig = None,
      mcpServers = None\<rparr>"

definition all_pending :: "step_status list" where
  "all_pending = [step_pending, step_pending, step_pending]"

definition silent :: "nat \<Rightarrow> spawn_call \<Rightarrow> proc_outcome" where
  "silent n call = Exited (Some 0) [] 10"

definition all_completed :: "step_status list" where
  "all_completed = [step_completed, step_completed, step_completed]"

definition example_reply :: string where
  \<open>example_reply =
     ''{"title":"Add validation","description":"...","steps":[{"description":"Add server-side checks"}]}''\<close>

definition example_reply_json :: json where
  "example_reply_json =
     JObj [(''title'', JStr ''Add validation''), (''description'', JStr ''...''),
           (''steps'', JArr [JObj [(''description'', JStr ''Add server-side checks'')]])]"


definition demo_server :: McpServer where
  "demo_server =
     \<lparr>srv_name = Some ''files'', srv_connectionType = conn_command,
      srv_command = Some ''mcp-files'', srv_args = None, srv_httpUrl = None,
      srv_headers = None, srv_env = None, srv_cwd = None, srv_timeout = 30000,
      srv_trust = False, srv_includeTools = None, srv_excludeTools = None\<rparr>"

definition server_options :: options where
  "server_options = no_options\<lparr>mcpServers := Some [demo_server]\<rparr>"

definition replying :: "string \<Rightarrow> nat \<Rightarrow> spawn_call \<Rightarrow> proc_outcome" where
  "replying text n call = Exited (Some 0) [Stdout text 5001] 10"

definition reply_response :: "string \<Rightarrow> string \<Rightarrow> GeminiResponse" where
  "reply_response sent text =
     \<lparr>messages = [\<lparr>msg_type = msg_user, content = sent, timestamp = 5000\<rparr>,
                  \<lparr>msg_type = msg_assistant, content = text, timestamp = 5001\<rparr>],
      result = text, success = True, duration_ms = 10, error = None\<rparr>"

definition example_step :: ExecutionStep where
  "example_step =
     \<lparr>step_id = JStr ''step_1'', step_description = JStr ''Add server-side checks'',
      command = None, files = None, estimated_duration = Some 300,
      step_status = Some step_pending\<rparr>"


section \<open>Properties\<close>

subsection \<open>Evaluation of the concrete runtime\<close>

lemma working_directory_simps [simp]:
  "working_directory rt (Some d) = d"
  "working_directory rt None = process_cwd rt"
  by (simp_all add: working_directory_def)

lemma demo_runtime_simps [simp]:
  "JSON_parse (demo_runtime table agent) = demo_parse table"
  "JSON_stringify (demo_runtime table agent) = show_json"
  "String_of (demo_runtime table agent) = show_json"
  "gemini (demo_runtime table agent) = agent"
  "settings_text (demo_runtime table agent) servers = ''{}''"
  "process_cwd (demo_runtime table agent) = [''work'']"
  "process_env (demo_runtime table agent) = []"
  by (simp_all add: demo_runtime_def)

lemma demo_parse_document [simp]:
  "demo_parse (document p # table) (show_json (plan_to_json p)) = Inr (plan_to_json p)"
  by (simp add: demo_parse_def document_def)

lemma demo_world_simps [simp]:
  "fs (demo_world f) = f"
  "clock (demo_world f) = 5000"
  "spawn_calls (demo_world f) = []"
  by (simp_all add: demo_world_def)

lemma demo_plan_simps [simp]:
  "plan_id (demo_plan st ss) = ''plan_1''"
  "status (demo_plan st ss) = st"
  by (simp_all add: demo_plan_def)

subsection \<open>The plan document is read back as written\<close>

lemma step_status_roundtrip [simp]: "step_status_of_name (step_status_name s) = Some s"
  by (cases s) (simp_all add: step_status_of_name_def)

lemma plan_status_roundtrip [simp]: "plan_status_of_name (plan_status_name s) = Some s"
  by (cases s) (simp_all add: plan_status_of_name_def)

lemma security_mode_roundtrip [simp]: "security_mode_of_name (security_mode_name s) = Some s"
  by (cases s) (simp_all add: security_mode_of_name_def)

lemma step_roundtrip [simp]: "step_of_json (step_to_json s) = Some s"
  by (cases "command s"; cases "files s"; cases "estimated_duration s"; cases "step_status s";
      simp add: step_of_json_def step_to_json_def opt_def optional_def)

lemma those_map_step [simp]: "those (map (step_of_json \<circ> step_to_json) ss) = Some ss"
  by (induction ss) simp_all

lemma those_as_string [simp]: "those (map (as_string \<circ> JStr) xs) = Some xs"
  by (induction xs) simp_all

lemma tools_roundtrip [simp]: "tools_of_json (tools_to_json t) = Some t"
  by (cases "enabledTools t"; cases "securityMode t"; cases "checkpointing t";
      simp add: tools_of_json_def tools_to_json_def opt_def optional_def)

lemma configuration_roundtrip [simp]: "configuration_of_json (configuration_to_json c) = Some c"
  by (cases "cfg_model c"; cases "cfg_projectPath c"; cases "cfg_toolsConfig c";
      simp add: configuration_of_json_def configuration_to_json_def opt_def optional_def)

lemma plan_roundtrip: "plan_of_json (plan_to_json p) = Some p"
  by (cases "original_prompt p"; cases "configuration p";
      simp add: plan_of_json_def plan_to_json_def opt_def optional_def)

lemma savePlan_result:
  assumes "savePlan rt plan wd w = (Inr u, w')"
  shows "fs w' (planPath wd (plan_id plan)) = Some (File (JSON_stringify rt (plan_to_json plan)))"
    and "clock w' = clock w" and "spawn_calls w' = spawn_calls w"
    and "random_draws w' = random_draws w"
  using assms
  by (auto simp: savePlan_def and_then_def ensurePlansDirectory_def writeFile_def planPath_def
           split: sum.splits option.splits node.splits if_splits)


lemma loadPlan_absent:
  "fs w (planPath wd planId) = None \<Longrightarrow> loadPlan rt planId wd w = (Inr None, w)"
  by (simp add: loadPlan_def readFile_def)



subsection \<open>Writing a plan to storage that accepts it\<close>

lemma planPath_not_prefix: "\<not> prefix (planPath wd pid) (plansDir wd)"
  by (simp add: planPath_def)

lemma writeFile_ok:
  assumes "f p \<noteq> Some Dir" and "f (butlast p) = Some Dir"
  shows "writeFile p t f = Inr (f(p \<mapsto> File t))"
proof (cases "f p")
  case None
  with assms show ?thesis by (simp add: writeFile_def)
next
  case (Some n)
  with assms show ?thesis by (cases n) (simp_all add: writeFile_def)
qed

lemma savePlan_storable:
  assumes "storable (fs w) wd (plan_id p)"
  shows "\<exists>w'. savePlan rt p wd w = (Inr (), w')
           \<and> storable (fs w') wd (plan_id p)
           \<and> fs w' (planPath wd (plan_id p)) = Some (File (JSON_stringify rt (plan_to_json p)))
           \<and> clock w' = clock w \<and> spawn_calls w' = spawn_calls w
           \<and> random_draws w' = random_draws w"
proof -
  let ?f = "\<lambda>q. if prefix q (plansDir wd) then Some Dir else fs w q"
  from assms have nofile: "\<forall>q \<in> set (prefixes (plansDir wd)). \<not> is_file (fs w q)"
    and nodir: "fs w (planPath wd (plan_id p)) \<noteq> Some Dir"
    by (simp_all add: storable_def)
  have mk: "mkdir_recursive (plansDir wd) (fs w) = Inr ?f"
    using nofile by (simp add: mkdir_recursive_def)
  have target: "?f (planPath wd (plan_id p)) \<noteq> Some Dir"
    using nodir by (simp add: planPath_not_prefix)
  have parent: "?f (butlast (planPath wd (plan_id p))) = Some Dir"
    by (simp add: planPath_def butlast_append)
  have wr: "writeFile (planPath wd (plan_id p)) t ?f = Inr (?f(planPath wd (plan_id p) \<mapsto> File t))" for t
    using target parent by (rule writeFile_ok)
  have "savePlan rt p wd w
          = (Inr (), w\<lparr>fs := ?f(planPath wd (plan_id p) \<mapsto> File (JSON_stringify rt (plan_to_json p)))\<rparr>)"
    using mk wr by (simp add: savePlan_def and_then_def ensurePlansDirectory_def planPath_def)
  moreover have "storable (?f(planPath wd (plan_id p) \<mapsto> File t)) wd (plan_id p)" for t
    by (auto simp: storable_def planPath_not_prefix)
  ultimately show ?thesis by simp
qed

subsection \<open>Approving a plan\<close>

lemma approve_plan_found:
  assumes "loadPlan rt planId (working_directory rt resolvedProjectPath) w = (Inr (Some plan), w)"
      and "storable (fs w) (working_directory rt resolvedProjectPath) (plan_id plan)"
  shows "\<exists>w'. approve_plan rt planId resolvedProjectPath w
                 = (Inr (plan\<lparr>status := approved, modified_at := clock w\<rparr>), w')
             \<and> fs w' (planPath (working_directory rt resolvedProjectPath) (plan_id plan))
                 = Some (File (JSON_stringify rt
                     (plan_to_json (plan\<lparr>status := approved, modified_at := clock w\<rparr>))))"
proof -
  let ?p = "plan\<lparr>status := approved, modified_at := clock w\<rparr>"
  from assms(2) have "storable (fs w) (working_directory rt resolvedProjectPath) (plan_id ?p)"
    by simp
  from savePlan_storable [OF this, of rt] obtain w' where
    "savePlan rt ?p (working_directory rt resolvedProjectPath) w = (Inr (), w')"
    "fs w' (planPath (working_directory rt resolvedProjectPath) (plan_id ?p))
       = Some (File (JSON_stringify rt (plan_to_json ?p)))"
    by blast
  with assms(1) show ?thesis
    by (simp add: approve_plan_def and_then_def Date_now_def return_ok_def Let_def)
qed

lemma approve_plan_missing:
  assumes "loadPlan rt missing (working_directory rt resolvedProjectPath) w = (Inr None, w)"
  shows "approve_plan rt missing resolvedProjectPath w
          = (Inl (NodeOperationError (''Plan with ID '' @ missing @ '' not found'')), w)"
  using assms by (simp add: approve_plan_def and_then_def throw_def)

text \<open>
  C1, as the specification states it: approving succeeds only for a plan whose status is
  \<^verbatim>\<open>draft\<close>, and a plan of any other status is rejected with its file left as it was.
  The node has no such check. Here the stored plan is \<^verbatim>\<open>completed\<close>: the operation returns
  the plan as \<^verbatim>\<open>approved\<close> and the file no longer holds what it held.
\<close>

theorem approve_plan_rejects_non_draft_counterexample:
  "loadPlan (demo_runtime [document (demo_plan completed all_completed)] silent) ''plan_1''
      [''work''] (demo_world (demo_fs (demo_plan completed all_completed)))
     = (Inr (Some (demo_plan completed all_completed)),
        demo_world (demo_fs (demo_plan completed all_completed)))
   \<and> status (demo_plan completed all_completed) \<noteq> draft
   \<and> fst (approve_plan (demo_runtime [document (demo_plan completed all_completed)] silent)
           ''plan_1'' (Some [''work''])
           (demo_world (demo_fs (demo_plan completed all_completed))))
     = Inr ((demo_plan completed all_completed)\<lparr>status := approved, modified_at := 5000\<rparr>)
   \<and> fs (snd (approve_plan (demo_runtime [document (demo_plan completed all_completed)] silent)
               ''plan_1'' (Some [''work''])
               (demo_world (demo_fs (demo_plan completed all_completed)))))
        [''work'', ''.gemini'', ''plans'', ''plan_1.json'']
     \<noteq> fs (demo_world (demo_fs (demo_plan completed all_completed)))
          [''work'', ''.gemini'', ''plans'', ''plan_1.json'']"
proof -
  let ?p = "demo_plan completed all_completed"
  let ?q = "?p\<lparr>status := approved, modified_at := 5000\<rparr>"
  let ?rt = "demo_runtime [document ?p] silent"
  let ?w = "demo_world (demo_fs ?p)"
  let ?file = "[''work'', ''.gemini'', ''plans'', ''plan_1.json'']"
  have found: "loadPlan ?rt ''plan_1'' [''work''] ?w = (Inr (Some ?p), ?w)"
    by (simp add: loadPlan_def readFile_def planPath_def plansDir_def demo_fs_def plan_roundtrip)
  have other: "status ?p \<noteq> draft"
    by simp
  have room: "storable (fs ?w) [''work''] ''plan_1''"
    by (simp add: storable_def planPath_def plansDir_def demo_fs_def)
  from approve_plan_found [of ?rt "''plan_1''" "Some [''work'']" ?w ?p] found room
  obtain w' where "approve_plan ?rt ''plan_1'' (Some [''work'']) ?w = (Inr ?q, w')"
    and "fs w' (planPath [''work''] ''plan_1'') = Some (File (show_json (plan_to_json ?q)))"
    by auto
  then have returned: "fst (approve_plan ?rt ''plan_1'' (Some [''work'']) ?w) = Inr ?q"
    and after: "fs (snd (approve_plan ?rt ''plan_1'' (Some [''work'']) ?w)) ?file
                  = Some (File (show_json (plan_to_json ?q)))"
    by (simp_all add: planPath_def plansDir_def)
  have before: "fs ?w ?file = Some (File (show_json (plan_to_json ?p)))"
    by (simp add: demo_fs_def)
  have "show_json (plan_to_json ?q) \<noteq> show_json (plan_to_json ?p)"
    by (simp add: show_int_def show_nat.simps quote_def digit_def plan_to_json_def demo_plan_def
        all_completed_def demo_step_def step_to_json_def opt_def)
  with found other returned after before show ?thesis by simp
qed

text \<open>
  C1, amended: approving succeeds for a stored plan of any status. The plan is returned
  with status \<^verbatim>\<open>approved\<close> and the current time as \<^verbatim>\<open>modified_at\<close>, and its file is
  rewritten with that plan. Only an id with no stored plan is rejected, and then nothing
  is written.
\<close>

theorem approve_plan_any_status:
  "(loadPlan rt planId (working_directory rt resolvedProjectPath) w = (Inr (Some plan), w)
      \<and> storable (fs w) (working_directory rt resolvedProjectPath) (plan_id plan)
    \<longrightarrow> (\<exists>w'. approve_plan rt planId resolvedProjectPath w
                 = (Inr (plan\<lparr>status := approved, modified_at := clock w\<rparr>), w')
             \<and> fs w' (planPath (working_directory rt resolvedProjectPath) (plan_id plan))
                 = Some (File (JSON_stringify rt
                     (plan_to_json (plan\<lparr>status := approved, modified_at := clock w\<rparr>))))))
   \<and> (loadPlan rt missing (working_directory rt resolvedProjectPath) w = (Inr None, w)
    \<longrightarrow> approve_plan rt missing resolvedProjectPath w
          = (Inl (NodeOperationError (''Plan with ID '' @ missing @ '' not found'')), w))"
  using approve_plan_found approve_plan_missing by blast

theorem approve_plan_any_status_witness:
  "loadPlan (demo_runtime [document (demo_plan completed all_completed)] silent) ''plan_1''
      (working_directory (demo_runtime [document (demo_plan completed all_completed)] silent)
         (Some [''work'']))
      (demo_world (demo_fs (demo_plan completed all_completed)))
     = (Inr (Some (demo_plan completed all_completed)),
        demo_world (demo_fs (demo_plan completed all_completed)))
   \<and> storable (fs (demo_world (demo_fs (demo_plan completed all_completed)))) [''work'']
        ''plan_1''
   \<and> loadPlan (demo_runtime [document (demo_plan completed all_completed)] silent) ''plan_2''
        [''work''] (demo_world (demo_fs (demo_plan completed all_completed)))
     = (Inr None, demo_world (demo_fs (demo_plan completed all_completed)))
   \<and> (\<exists>w'. approve_plan (demo_runtime [document (demo_plan completed all_completed)] silent)
               ''plan_1'' (Some [''work''])
               (demo_world (demo_fs (demo_plan completed all_completed)))
             = (Inr ((demo_plan completed all_completed)
                       \<lparr>status := approved, modified_at := 5000\<rparr>), w'))
   \<and> approve_plan (demo_runtime [document (demo_plan completed all_completed)] silent)
        ''plan_2'' (Some [''work'']) (demo_world (demo_fs (demo_plan completed all_completed)))
     = (Inl (NodeOperationError ''Plan with ID plan_2 not found''),
        demo_world (demo_fs (demo_plan completed all_completed)))"
proof -
  let ?p = "demo_plan completed all_completed"
  let ?rt = "demo_runtime [document ?p] silent"
  let ?w = "demo_world (demo_fs ?p)"
  have found: "loadPlan ?rt ''plan_1'' [''work''] ?w = (Inr (Some ?p), ?w)"
    by (simp add: loadPlan_def readFile_def planPath_def plansDir_def demo_fs_def plan_roundtrip)
  have room: "storable (fs ?w) [''work''] ''plan_1''"
    by (simp add: storable_def planPath_def plansDir_def demo_fs_def)
  have absent: "loadPlan ?rt ''plan_2'' [''work''] ?w = (Inr None, ?w)"
    by (simp add: loadPlan_def readFile_def planPath_def plansDir_def demo_fs_def)
  from approve_plan_any_status
         [where rt = ?rt and planId = "''plan_1''" and resolvedProjectPath = "Some [''work'']"
            and w = ?w and plan = ?p and missing = "''plan_2''"]
  show ?thesis using found room absent by auto
qed

subsection \<open>Executing a plan that is not approved\<close>

lemma executePlan_not_approved:
  assumes "loadPlan rt planId (working_directory rt (cwd options)) w = (Inr (Some plan), w)"
      and "status plan \<noteq> approved"
  shows "executePlan rt planId options w
           = (Inl (ApplicationError (''Plan must be approved before execution. Current status: ''
                                     @ plan_status_name (status plan))), w)"
  using assms by (simp add: executePlan_def and_then_def throw_def Let_def)

lemma executePlan_missing:
  assumes "loadPlan rt missing (working_directory rt (cwd options)) w = (Inr None, w)"
  shows "executePlan rt missing options w
           = (Inl (ApplicationError (''Plan with ID '' @ missing @ '' not found'')), w)"
  using assms by (simp add: executePlan_def and_then_def throw_def Let_def)

text \<open>
  C5. \<^verbatim>\<open>executePlan\<close> on a stored plan whose status is not \<^verbatim>\<open>approved\<close> fails with the
  error \<^verbatim>\<open>Plan must be approved before execution\<close>; on an id with no stored plan it fails
  with the different error \<^verbatim>\<open>Plan with ID ... not found\<close>. In both cases the world is
  returned as it was: no file is written and \<^verbatim>\<open>spawn\<close> is not called.
\<close>

theorem executePlan_rejects_before_running:
  "(loadPlan rt planId (working_directory rt (cwd options)) w = (Inr (Some plan), w)
      \<and> status plan \<noteq> approved
    \<longrightarrow> (\<exists>e w'. executePlan rt planId options w = (Inl e, w')
           \<and> e = ApplicationError (''Plan must be approved before execution. Current status: ''
                                    @ plan_status_name (status plan))
           \<and> e \<noteq> ApplicationError (''Plan with ID '' @ planId @ '' not found'')
           \<and> fs w' = fs w \<and> spawn_calls w' = spawn_calls w))
   \<and> (loadPlan rt missing (working_directory rt (cwd options)) w = (Inr None, w)
    \<longrightarrow> (\<exists>e w'. executePlan rt missing options w = (Inl e, w')
           \<and> e = ApplicationError (''Plan with ID '' @ missing @ '' not found'')
           \<and> fs w' = fs w \<and> spawn_calls w' = spawn_calls w))"
  using executePlan_not_approved executePlan_missing by simp

theorem executePlan_rejects_before_running_witness:
  "loadPlan (demo_runtime [document (demo_plan draft all_pending)] silent) ''plan_1''
      (working_directory (demo_runtime [document (demo_plan draft all_pending)] silent)
         (cwd no_options))
      (demo_world (demo_fs (demo_plan draft all_pending)))
     = (Inr (Some (demo_plan draft all_pending)),
        demo_world (demo_fs (demo_plan draft all_pending)))
   \<and> status (demo_plan draft all_pending) \<noteq> approved
   \<and> loadPlan (demo_runtime [document (demo_plan draft all_pending)] silent) ''plan_2''
        (working_directory (demo_runtime [document (demo_plan draft all_pending)] silent)
           (cwd no_options))
        (demo_world (demo_fs (demo_plan draft all_pending)))
     = (Inr None, demo_world (demo_fs (demo_plan draft all_pending)))
   \<and> fst (executePlan (demo_runtime [document (demo_plan draft all_pending)] silent) ''plan_1''
            no_options (demo_world (demo_fs (demo_plan draft all_pending))))
     = Inl (ApplicationError ''Plan must be approved before execution. Current status: draft'')
   \<and> fst (executePlan (demo_runtime [document (demo_plan draft all_pending)] silent) ''plan_2''
            no_options (demo_world (demo_fs (demo_plan draft all_pending))))
     = Inl (ApplicationError ''Plan with ID plan_2 not found'')"
proof -
  let ?p = "demo_plan draft all_pending"
  let ?rt = "demo_runtime [document ?p] silent"
  let ?w = "demo_world (demo_fs ?p)"
  have dir: "working_directory ?rt (cwd no_options) = [''work'']"
    by (simp add: no_options_def)
  have found: "loadPlan ?rt ''plan_1'' (working_directory ?rt (cwd no_options)) ?w
                 = (Inr (Some ?p), ?w)"
    by (simp add: dir loadPlan_def readFile_def planPath_def plansDir_def demo_fs_def
        plan_roundtrip)
  have absent: "loadPlan ?rt ''plan_2'' (working_directory ?rt (cwd no_options)) ?w
                  = (Inr None, ?w)"
    by (simp add: dir loadPlan_def readFile_def planPath_def plansDir_def demo_fs_def)
  from executePlan_rejects_before_running
         [where rt = ?rt and planId = "''plan_1''" and options = no_options and w = ?w
            and plan = ?p and missing = "''plan_2''"]
  show ?thesis using found absent by auto
qed

subsection \<open>The text handed to the JSON parser\<close>

lemma jsonMatch_between:
  assumes "CHR ''{'' \<notin> set pre" and "CHR ''}'' \<notin> set post"
  shows "jsonMatch (pre @ CHR ''{'' # body @ CHR ''}'' # post) = Some (CHR ''{'' # body @ ''}'')"
proof -
  have start: "dropWhile (\<lambda>c. c \<noteq> CHR ''{'') (pre @ CHR ''{'' # body @ CHR ''}'' # post)
                 = CHR ''{'' # body @ CHR ''}'' # post"
    using assms(1) by (auto simp: dropWhile_append3)
  have "dropWhile (\<lambda>c. c \<noteq> CHR ''}'') (rev post @ CHR ''}'' # rev body) = CHR ''}'' # rev body"
    using assms(2) by (auto simp: dropWhile_append3)
  then have stop: "rev (dropWhile (\<lambda>c. c \<noteq> CHR ''}'') (rev (body @ CHR ''}'' # post)))
                     = body @ ''}''"
    by simp
  show ?thesis
    unfolding jsonMatch_def start using stop by simp
qed

lemma dropWhile_Cons_hd:
  assumes "dropWhile P xs = y # ys"
  shows "\<not> P y" and "xs = takeWhile P xs @ y # ys"
proof -
  from assms have "dropWhile P xs \<noteq> []" by simp
  from hd_dropWhile [OF this] assms show "\<not> P y" by simp
  from takeWhile_dropWhile_id [of P xs] assms show "xs = takeWhile P xs @ y # ys" by simp
qed

lemma jsonMatch_shape:
  assumes "jsonMatch s = Some m"
  shows "\<exists>pre body post. s = pre @ m @ post \<and> m = CHR ''{'' # body @ ''}''
           \<and> CHR ''{'' \<notin> set pre \<and> CHR ''}'' \<notin> set post"
proof -
  let ?open = "\<lambda>c. c \<noteq> CHR ''{''" and ?close = "\<lambda>c. c \<noteq> CHR ''}''"
  from assms obtain x rest where rest: "dropWhile ?open s = x # rest"
    and inside: "CHR ''}'' \<in> set rest"
    and m: "m = CHR ''{'' # rev (dropWhile ?close (rev rest))"
    by (auto simp: jsonMatch_def split: list.splits if_splits)
  from dropWhile_Cons_hd [OF rest] have x: "x = CHR ''{''"
    and s: "s = takeWhile ?open s @ x # rest" by simp_all
  from inside have "dropWhile ?close (rev rest) \<noteq> []"
    by (auto simp: dropWhile_eq_Nil_conv)
  then obtain y ys where d: "dropWhile ?close (rev rest) = y # ys"
    by (cases "dropWhile ?close (rev rest)") auto
  from dropWhile_Cons_hd [OF d] have y: "y = CHR ''}''"
    and r: "rev rest = takeWhile ?close (rev rest) @ y # ys" by simp_all
  from r have "rest = rev ys @ [y] @ rev (takeWhile ?close (rev rest))"
    by (metis append_Cons append_Nil append_assoc rev.simps(2) rev_append rev_rev_ident)
  with s x y d m have "s = takeWhile ?open s @ m @ rev (takeWhile ?close (rev rest))"
    and "m = CHR ''{'' # rev ys @ ''}''"
    by simp_all
  moreover have "CHR ''{'' \<notin> set (takeWhile ?open s)"
    by (auto dest: set_takeWhileD)
  moreover have "CHR ''}'' \<notin> set (rev (takeWhile ?close (rev rest)))"
    by (auto dest: set_takeWhileD)
  ultimately show ?thesis by blast
qed

text \<open>
  C7, as the specification states it: the text handed to the parser is the first
  brace-delimited JSON object of the reply, so that an object followed by prose with braces
  is still parsed into that object. Here the reply is the object of the specification's
  example followed by such prose: the match runs on to the last closing brace, and the
  parser, which accepts the object alone, rejects what it is handed.
\<close>

theorem jsonMatch_first_object_counterexample:
  "jsonMatch (example_reply @ '' Use {braces} with care.'') = Some (example_reply @ '' Use {braces}'')
   \<and> example_reply @ '' Use {braces}'' \<noteq> example_reply
   \<and> JSON_parse (demo_runtime [(example_reply, example_reply_json)] silent) example_reply
       = Inr example_reply_json
   \<and> parse_plan_data (demo_runtime [(example_reply, example_reply_json)] silent)
        ''Failed to parse plan structure: '' (example_reply @ '' Use {braces} with care.'')
       = Inl (ApplicationError ''Failed to parse plan structure: Unexpected token'')"
  by (simp add: jsonMatch_def example_reply_def parse_plan_data_def demo_parse_def)

text \<open>
  C7, amended: the text handed to the parser runs from the first opening brace of the reply
  to its last closing brace. A reply made of one JSON object surrounded by prose is therefore
  parsed into that object when the prose before it has no opening brace and the prose after
  it has no closing brace.
\<close>

theorem jsonMatch_first_to_last_brace:
  "(jsonMatch s = Some m
    \<longrightarrow> (\<exists>before inside after. s = before @ m @ after \<and> m = CHR ''{'' # inside @ ''}''
           \<and> CHR ''{'' \<notin> set before \<and> CHR ''}'' \<notin> set after))
   \<and> (CHR ''{'' \<notin> set pre \<and> CHR ''}'' \<notin> set post
      \<and> JSON_parse rt (CHR ''{'' # body @ ''}'') = Inr planData
    \<longrightarrow> jsonMatch (pre @ CHR ''{'' # body @ CHR ''}'' # post) = Some (CHR ''{'' # body @ ''}'')
      \<and> parse_plan_data rt what (pre @ CHR ''{'' # body @ CHR ''}'' # post) = Inr planData)"
  using jsonMatch_shape jsonMatch_between by (simp add: parse_plan_data_def)

theorem jsonMatch_first_to_last_brace_witness:
  "jsonMatch ''Plan: {} and {x} done'' = Some ''{} and {x}''
   \<and> (\<exists>before inside after. ''Plan: {} and {x} done'' = before @ ''{} and {x}'' @ after
         \<and> ''{} and {x}'' = CHR ''{'' # inside @ ''}''
         \<and> CHR ''{'' \<notin> set before \<and> CHR ''}'' \<notin> set after)
   \<and> CHR ''{'' \<notin> set ''Here is the plan: '' \<and> CHR ''}'' \<notin> set '' Good luck.''
   \<and> JSON_parse (demo_runtime [(''{}'', JObj [])] silent) (CHR ''{'' # [] @ ''}'') = Inr (JObj [])
   \<and> parse_plan_data (demo_runtime [(''{}'', JObj [])] silent) ''Failed to parse plan structure: ''
        (''Here is the plan: '' @ CHR ''{'' # [] @ CHR ''}'' # '' Good luck.'') = Inr (JObj [])"
proof -
  have first: "jsonMatch ''Plan: {} and {x} done'' = Some ''{} and {x}''"
    by (simp add: jsonMatch_def)
  have known: "JSON_parse (demo_runtime [(''{}'', JObj [])] silent) (CHR ''{'' # [] @ ''}'')
                 = Inr (JObj [])"
    by (simp add: demo_parse_def)
  have clean: "CHR ''{'' \<notin> set ''Here is the plan: ''" "CHR ''}'' \<notin> set '' Good luck.''"
    by simp_all
  from jsonMatch_first_to_last_brace
         [where s = "''Plan: {} and {x} done''" and m = "''{} and {x}''"
            and pre = "''Here is the plan: ''" and post = "'' Good luck.''" and body = "[]"
            and rt = "demo_runtime [(''{}'', JObj [])] silent" and planData = "JObj []"
            and what = "''Failed to parse plan structure: ''"]
  show ?thesis using first known clean by simp
qed

subsection \<open>The argument vector of a query\<close>


lemma cleanupGeminiConfig_spawn_calls [simp]:
  "spawn_calls (cleanupGeminiConfig d w) = spawn_calls w"
  by (simp add: cleanupGeminiConfig_def)








subsection \<open>Cleanup of the configuration directory\<close>

lemma createGeminiConfig_configDir:
  "createGeminiConfig rt servers wd w = (Inr c, w') \<Longrightarrow> fst c = wd @ [''.gemini'']"
  by (auto simp: createGeminiConfig_def Let_def split: sum.splits)

lemma cleanup_removes [simp]:
  "prefix d q \<Longrightarrow> fs (cleanupGeminiConfig d w) q = None"
  by (simp add: cleanupGeminiConfig_def rm_recursive_force_def)

lemma runGeminiCLI_cleans_up:
  assumes "mcpServers options = Some servers" and "servers \<noteq> []"
      and "runGeminiCLI rt prompt options w = (r, w')"
      and "spawn_calls w' \<noteq> spawn_calls w"
      and "prefix (working_directory rt (cwd options) @ [''.gemini'']) q"
  shows "fs w' q = None"
proof -
  let ?wd = "working_directory rt (cwd options)"
  obtain c w1 where c: "createGeminiConfig rt servers ?wd w = (c, w1)"
    by (cases "createGeminiConfig rt servers ?wd w") auto
  have same: "spawn_calls w1 = spawn_calls w"
    using c by (auto simp: createGeminiConfig_def Let_def split: sum.splits)
  show ?thesis
  proof (cases c)
    case (Inl e)
    with assms c same show ?thesis
      by (simp add: runGeminiCLI_def Let_def)
  next
    case (Inr cfg)
    with c have "fst cfg = ?wd @ [''.gemini'']"
      by (simp add: createGeminiConfig_configDir)
    with assms c Inr show ?thesis
      by (auto simp: runGeminiCLI_def Let_def split: proc_outcome.splits)
  qed
qed

lemma planPath_below_config: "prefix (wd @ [''.gemini'']) (planPath wd planId)"
  by (simp add: planPath_def plansDir_def)

lemma configured_run_spawns:
  assumes "mcpServers options = Some servers" and "servers \<noteq> []"
      and "configurable (fs w) (working_directory rt (cwd options))"
  shows "spawn_calls (snd (runGeminiCLI rt prompt options w)) \<noteq> spawn_calls w"
proof -
  let ?wd = "working_directory rt (cwd options)"
  let ?dir = "?wd @ [''.gemini'']"
  let ?f = "\<lambda>q. if prefix q ?dir then Some Dir else fs w q"
  from assms(3) have mk: "mkdir_recursive ?dir (fs w) = Inr ?f"
    by (simp add: configurable_def mkdir_recursive_def)
  have "?f (?dir @ [''settings.json'']) \<noteq> Some Dir"
    using assms(3) by (simp add: configurable_def)
  moreover have "?f (butlast (?dir @ [''settings.json''])) = Some Dir"
    by (simp add: butlast_append)
  ultimately have "writeFile (?dir @ [''settings.json'']) t ?f
                     = Inr (?f(?dir @ [''settings.json''] \<mapsto> File t))" for t
    by (rule writeFile_ok)
  with mk have "\<exists>w1. createGeminiConfig rt servers ?wd w = (Inr (?dir, ?dir @ [''settings.json'']), w1)
                  \<and> spawn_calls w1 = spawn_calls w"
    by (simp add: createGeminiConfig_def Let_def)
  then obtain w1 where "createGeminiConfig rt servers ?wd w = (Inr (?dir, ?dir @ [''settings.json'']), w1)"
    and "spawn_calls w1 = spawn_calls w" by blast
  with assms(1,2) show ?thesis
    by (simp add: runGeminiCLI_def Let_def split: proc_outcome.splits)
qed

text \<open>
  C2. When \<^verbatim>\<open>runGeminiCLI\<close> is given at least one server descriptor (named or not: the node
  tests only the length of the list) and reaches the call of \<^verbatim>\<open>spawn\<close>, then whatever the
  process does (it exits with any code, fails to start, or runs into the timeout) nothing
  exists at or below \<^verbatim>\<open>.gemini\<close> in the working directory afterwards, so that every plan
  id of that working directory loads as not found. The removal itself is taken to succeed;
  the node ignores its failure.
\<close>

theorem runGeminiCLI_cleanup_removes_plans:
  "mcpServers options = Some servers \<and> servers \<noteq> []
     \<and> runGeminiCLI rt prompt options w = (r, w') \<and> spawn_calls w' \<noteq> spawn_calls w
   \<longrightarrow> (\<forall>q. prefix (working_directory rt (cwd options) @ [''.gemini'']) q \<longrightarrow> fs w' q = None)
     \<and> (\<forall>planId. loadPlan rt planId (working_directory rt (cwd options)) w' = (Inr None, w'))"
  using runGeminiCLI_cleans_up planPath_below_config loadPlan_absent by (metis (no_types, lifting))

theorem runGeminiCLI_cleanup_removes_plans_witness:
  "mcpServers server_options = Some [demo_server] \<and> [demo_server] \<noteq> []
   \<and> runGeminiCLI (demo_runtime [document (demo_plan draft all_pending)] silent) ''List the files''
        server_options (demo_world (demo_fs (demo_plan draft all_pending)))
      = (fst (runGeminiCLI (demo_runtime [document (demo_plan draft all_pending)] silent)
                ''List the files'' server_options
                (demo_world (demo_fs (demo_plan draft all_pending)))),
         snd (runGeminiCLI (demo_runtime [document (demo_plan draft all_pending)] silent)
                ''List the files'' server_options
                (demo_world (demo_fs (demo_plan draft all_pending)))))
   \<and> spawn_calls (snd (runGeminiCLI (demo_runtime [document (demo_plan draft all_pending)] silent)
                         ''List the files'' server_options
                         (demo_world (demo_fs (demo_plan draft all_pending)))))
      \<noteq> spawn_calls (demo_world (demo_fs (demo_plan draft all_pending)))
   \<and> fst (loadPlan (demo_runtime [document (demo_plan draft all_pending)] silent) ''plan_1''
            [''work''] (demo_world (demo_fs (demo_plan draft all_pending))))
      = Inr (Some (demo_plan draft all_pending))
   \<and> fst (loadPlan (demo_runtime [document (demo_plan draft all_pending)] silent) ''plan_1''
            [''work'']
            (snd (runGeminiCLI (demo_runtime [document (demo_plan draft all_pending)] silent)
                    ''List the files'' server_options
                    (demo_world (demo_fs (demo_plan draft all_pending))))))
      = Inr None"
proof -
  let ?p = "demo_plan draft all_pending"
  let ?rt = "demo_runtime [document ?p] silent"
  let ?w = "demo_world (demo_fs ?p)"
  let ?run = "runGeminiCLI ?rt ''List the files'' server_options ?w"
  have servers: "mcpServers server_options = Some [demo_server]"
    and dir: "working_directory ?rt (cwd server_options) = [''work'']"
    by (simp_all add: server_options_def no_options_def)
  have "configurable (fs ?w) (working_directory ?rt (cwd server_options))"
    by (simp add: dir configurable_def demo_fs_def)
  from configured_run_spawns [OF servers _ this, of "''List the files''"]
  have spawned: "spawn_calls (snd ?run) \<noteq> spawn_calls ?w"
    by simp
  have before: "fst (loadPlan ?rt ''plan_1'' [''work''] ?w) = Inr (Some ?p)"
    by (simp add: loadPlan_def readFile_def planPath_def plansDir_def demo_fs_def plan_roundtrip)
  from runGeminiCLI_cleanup_removes_plans
         [where options = server_options and servers = "[demo_server]" and rt = ?rt
            and prompt = "''List the files''" and w = ?w and r = "fst ?run" and w' = "snd ?run"]
  show ?thesis using servers spawned before dir by simp
qed

subsection \<open>Generating a plan from the agent's reply\<close>

lemma generatePlanId_world:
  "\<exists>planId. generatePlanId rt w = (Inr planId, w\<lparr>random_draws := Suc (random_draws w)\<rparr>)"
  by (simp add: generatePlanId_def Let_def)

lemma validated_step_ok:
  "step \<noteq> JNull \<Longrightarrow> \<exists>v. validated_step index step = Inr v
      \<and> step_status v = Some step_pending
      \<and> (field step ''id'' = None \<longrightarrow> step_id v = JStr (''step_'' @ show_nat (index + 1)))
      \<and> (field step ''description'' = None
           \<longrightarrow> step_description v = JStr (''Step '' @ show_nat (index + 1)))
      \<and> ((\<forall>n. field step ''estimated_duration'' \<noteq> Some (JNum n))
           \<longrightarrow> estimated_duration v = Some 300)"
  by (auto simp: validated_step_def js_or_def split: option.splits json.splits)

lemma validatedSteps_from_ok:
  "JNull \<notin> set ss \<Longrightarrow>
     \<exists>vs. validatedSteps_from k ss = Inr vs \<and> length vs = length ss
       \<and> (\<forall>i < length ss. validated_step (k + i) (ss ! i) = Inr (vs ! i))"
proof (induction ss arbitrary: k)
  case Nil
  then show ?case by simp
next
  case (Cons s ss)
  then have "s \<noteq> JNull" and "JNull \<notin> set ss" by auto
  from validated_step_ok [OF this(1), of k] obtain v where v: "validated_step k s = Inr v"
    by blast
  from Cons.IH [OF \<open>JNull \<notin> set ss\<close>, of "Suc k"] obtain vs where
    vs: "validatedSteps_from (Suc k) ss = Inr vs" "length vs = length ss"
      "\<forall>i < length ss. validated_step (Suc k + i) (ss ! i) = Inr (vs ! i)"
    by blast
  have "\<forall>i < length (s # ss). validated_step (k + i) ((s # ss) ! i) = Inr ((v # vs) ! i)"
  proof (intro allI impI)
    fix i assume "i < length (s # ss)"
    then show "validated_step (k + i) ((s # ss) ! i) = Inr ((v # vs) ! i)"
      using v vs(3) by (cases i) auto
  qed
  with v vs show ?case by simp
qed

lemma required_fields_missing:
  assumes "field planData ''title'' = None \<or> field planData ''description'' = None
           \<or> (\<forall>ss. field planData ''steps'' \<noteq> Some (JArr ss))"
  shows "\<exists>e. required_fields invalid planData = Inl e"
  using assms
  by (auto simp: required_fields_def split: option.splits json.splits)

lemma required_fields_present:
  assumes "field planData ''title'' = Some t" and "truthy t"
      and "field planData ''description'' = Some d" and "truthy d"
      and "field planData ''steps'' = Some (JArr ss)"
  shows "required_fields invalid planData = Inr (t, d, ss)"
proof -
  from assms(1) have "planData \<noteq> JNull" by auto
  with assms show ?thesis by (simp add: required_fields_def)
qed

lemma parse_plan_data_cases:
  "parse_plan_data rt what text =
     (case jsonMatch text of
        None \<Rightarrow> Inl (ApplicationError (what @ ''No JSON structure found in Gemini response''))
      | Some m \<Rightarrow> (case JSON_parse rt m of
                     Inl msg \<Rightarrow> Inl (ApplicationError (what @ msg))
                   | Inr planData \<Rightarrow> Inr planData))"
  by (simp add: parse_plan_data_def)

lemma generate_without_plan_data:
  assumes run: "runGeminiCLI rt (planningPrompt prompt) (planning_options options)
                  (snd (generatePlanId rt w)) = (Inr response, w_run)"
      and bad: "parse_plan_data rt ''Failed to parse plan structure: '' (result response) = Inl e
                \<or> (\<exists>planData e'. parse_plan_data rt ''Failed to parse plan structure: ''
                                   (result response) = Inr planData
                      \<and> required_fields ''Invalid plan structure: missing required fields''
                            planData = Inl e')"
  shows "\<exists>m. generatePlanWithGemini rt prompt options w
               = (Inl (ApplicationError (''Plan generation failed: '' @ m)), w_run)"
proof -
  from generatePlanId_world [of rt w] obtain planId where
    pid: "generatePlanId rt w = (Inr planId, w\<lparr>random_draws := Suc (random_draws w)\<rparr>)"
    by blast
  with run have run': "runGeminiCLI rt (planningPrompt prompt) (planning_options options)
                  (w\<lparr>random_draws := Suc (random_draws w)\<rparr>) = (Inr response, w_run)"
    by simp
  from bad show ?thesis
  proof
    assume "parse_plan_data rt ''Failed to parse plan structure: '' (result response) = Inl e"
    with pid run' show ?thesis
      by (simp add: generatePlanWithGemini_def and_then_def try_catch_def throw_def lift_def
          Date_now_def)
  next
    assume "\<exists>planData e'. parse_plan_data rt ''Failed to parse plan structure: ''
                                   (result response) = Inr planData
                      \<and> required_fields ''Invalid plan structure: missing required fields''
                            planData = Inl e'"
    with pid run' show ?thesis
      by (auto simp: generatePlanWithGemini_def and_then_def try_catch_def throw_def lift_def
          Date_now_def return_ok_def)
  qed
qed

lemma generate_with_plan_data:
  assumes pid: "generatePlanId rt w = (Inr planId, w_id)"
      and run: "runGeminiCLI rt (planningPrompt prompt) (planning_options options) w_id
                  = (Inr response, w_run)"
      and ok: "success response"
      and found: "jsonMatch (result response) = Some m"
      and parsed: "JSON_parse rt m = Inr planData"
      and t: "field planData ''title'' = Some t" "truthy t"
      and d: "field planData ''description'' = Some d" "truthy d"
      and ss: "field planData ''steps'' = Some (JArr ss)" "JNull \<notin> set ss"
      and room: "storable (fs w_run) (working_directory rt (cwd options)) planId"
  shows "\<exists>plan w'. generatePlanWithGemini rt prompt options w = (Inr plan, w')
           \<and> plan_id plan = planId \<and> status plan = draft
           \<and> title plan = t \<and> description plan = d
           \<and> original_prompt plan = Some prompt
           \<and> length (steps plan) = length ss
           \<and> (\<forall>i < length ss. validated_step i (ss ! i) = Inr (steps plan ! i))
           \<and> fs w' (planPath (working_directory rt (cwd options)) planId)
               = Some (File (JSON_stringify rt (plan_to_json plan)))"
proof -
  let ?wd = "working_directory rt (cwd options)"
  from validatedSteps_from_ok [OF ss(2), of 0] obtain vs where
    vs: "validatedSteps ss = Inr vs" "length vs = length ss"
      "\<forall>i < length ss. validated_step i (ss ! i) = Inr (vs ! i)"
    by (auto simp: validatedSteps_def)
  let ?plan = "\<lparr>plan_id = planId, title = t, description = d, steps = vs,
                created_at = clock w, modified_at = clock w, status = draft,
                original_prompt = Some prompt,
                configuration = Some \<lparr>cfg_model = model options,
                                       cfg_projectPath = map_option path_string (cwd options),
                                       cfg_toolsConfig = toolsConfig options\<rparr>\<rparr>"
  from room have "storable (fs w_run) ?wd (plan_id ?plan)" by simp
  from savePlan_storable [OF this, of rt] obtain w' where
    saved: "savePlan rt ?plan ?wd w_run = (Inr (), w')"
      "fs w' (planPath ?wd (plan_id ?plan)) = Some (File (JSON_stringify rt (plan_to_json ?plan)))"
    by blast
  have data: "parse_plan_data rt ''Failed to parse plan structure: '' (result response)
                = Inr planData"
    using found parsed by (simp add: parse_plan_data_def)
  have req: "required_fields ''Invalid plan structure: missing required fields'' planData
               = Inr (t, d, ss)"
    using t d ss(1) by (rule required_fields_present)
  from pid have time: "clock w_id = clock w"
    by (auto simp: generatePlanId_def Let_def)
  have "generatePlanWithGemini rt prompt options w = (Inr ?plan, w')"
    using pid run ok data req vs(1) saved(1) time
    by (simp add: generatePlanWithGemini_def and_then_def try_catch_def throw_def lift_def
        Date_now_def return_ok_def Let_def)
  with vs(2,3) saved(2) show ?thesis by simp
qed

lemma trim_clean:
  assumes "s \<noteq> []" and "\<not> is_space (hd s)" and "\<not> is_space (last s)"
  shows "trim s = s"
proof -
  from assms(1,2) have "dropWhile is_space s = s"
    by (cases s) auto
  moreover from assms(1,3) have "dropWhile is_space (rev s) = rev s"
    by (cases "rev s") (auto simp: last_rev [symmetric] simp del: last_rev)
  ultimately show ?thesis by (simp add: trim_def)
qed

lemma demo_generatePlanId:
  "generatePlanId (demo_runtime table agent) (demo_world f)
     = (Inr ''plan_2024-01-08_12-34-56_k3j9x2'', (demo_world f)\<lparr>random_draws := 1\<rparr>)"
  by (simp add: generatePlanId_def Let_def replace_first_def demo_runtime_def demo_world_def)

lemma demo_reply_run:
  assumes "text \<noteq> []" and "\<not> is_space (hd text)" and "\<not> is_space (last text)"
  shows "runGeminiCLI (demo_runtime table (replying text)) prompt
           (no_options\<lparr>systemPrompt := Some sp\<rparr>) ((demo_world f)\<lparr>random_draws := n\<rparr>)
     = (Inr (reply_response (finalPrompt (no_options\<lparr>systemPrompt := Some sp\<rparr>) prompt) text),
        (demo_world f)\<lparr>random_draws := n,
           spawn_calls := [\<lparr>argv = command_arguments (no_options\<lparr>systemPrompt := Some sp\<rparr>) prompt,
                            spawn_cwd = [''work''], spawn_env = []\<rparr>],
           clock := 5010\<rparr>)"
  using trim_clean [OF assms]
  by (simp add: runGeminiCLI_def Let_def no_options_def replying_def reply_response_def
      spawn_environment_def nonempty_def is_true_def demo_world_def)

lemma show_nat_1: "show_nat (0 + 1) = ''1''"
  by (simp add: show_nat.simps digit_def)

lemma example_reply_clean:
  "example_reply \<noteq> []" "\<not> is_space (hd example_reply)" "\<not> is_space (last example_reply)"
  "jsonMatch example_reply = Some example_reply"
  by (simp_all add: example_reply_def is_space_def jsonMatch_def)

text \<open>
  C6. Let the planning call return a response. If its text has no brace-delimited part, or
  that part does not parse, or the parsed value lacks \<^verbatim>\<open>title\<close> or \<^verbatim>\<open>description\<close> or has
  no array under \<^verbatim>\<open>steps\<close>, then \<^verbatim>\<open>generatePlanWithGemini\<close> fails with an error
  \<^verbatim>\<open>Plan generation failed: ...\<close> and returns the world as the call left it: no plan file is
  written. If the call succeeded and the parsed object has a truthy title and description
  and an array of steps, none of them \<^verbatim>\<open>null\<close>, then on storage that accepts the plan the
  operation returns a plan of status \<^verbatim>\<open>draft\<close> with one step per element, each of status
  \<^verbatim>\<open>pending\<close>, with id \<^verbatim>\<open>step_<index + 1>\<close> where the element has no id, description
  \<^verbatim>\<open>Step <index + 1>\<close> where it has none, and duration 300 where it has no number; and the
  plan file holds that plan.
\<close>

theorem generatePlanWithGemini_reply:
  "generatePlanId rt w = (Inr planId, w_id)
   \<and> runGeminiCLI rt (planningPrompt prompt) (planning_options options) w_id = (Inr response, w_run)
   \<longrightarrow>
     ((jsonMatch (result response) = None
       \<or> (\<exists>m. jsonMatch (result response) = Some m
              \<and> ((\<exists>syntaxError. JSON_parse rt m = Inl syntaxError)
                 \<or> (\<exists>planData. JSON_parse rt m = Inr planData
                       \<and> (field planData ''title'' = None
                          \<or> field planData ''description'' = None
                          \<or> (\<forall>ss. field planData ''steps'' \<noteq> Some (JArr ss)))))))
      \<longrightarrow> (\<exists>reason. generatePlanWithGemini rt prompt options w
                      = (Inl (ApplicationError (''Plan generation failed: '' @ reason)), w_run)))
   \<and> (success response \<and> jsonMatch (result response) = Some m \<and> JSON_parse rt m = Inr planData
      \<and> field planData ''title'' = Some t \<and> truthy t
      \<and> field planData ''description'' = Some d \<and> truthy d
      \<and> field planData ''steps'' = Some (JArr ss) \<and> JNull \<notin> set ss
      \<and> storable (fs w_run) (working_directory rt (cwd options)) planId
      \<longrightarrow> (\<exists>plan w'. generatePlanWithGemini rt prompt options w = (Inr plan, w')
             \<and> plan_id plan = planId \<and> status plan = draft
             \<and> title plan = t \<and> description plan = d
             \<and> length (steps plan) = length ss
             \<and> (\<forall>i < length ss.
                   step_status (steps plan ! i) = Some step_pending
                 \<and> (field (ss ! i) ''id'' = None
                      \<longrightarrow> step_id (steps plan ! i) = JStr (''step_'' @ show_nat (i + 1)))
                 \<and> (field (ss ! i) ''description'' = None
                      \<longrightarrow> step_description (steps plan ! i) = JStr (''Step '' @ show_nat (i + 1)))
                 \<and> ((\<forall>n. field (ss ! i) ''estimated_duration'' \<noteq> Some (JNum n))
                      \<longrightarrow> estimated_duration (steps plan ! i) = Some 300))
             \<and> fs w' (planPath (working_directory rt (cwd options)) planId)
                 = Some (File (JSON_stringify rt (plan_to_json plan)))))"
proof (intro impI conjI)
  assume pre: "generatePlanId rt w = (Inr planId, w_id)
     \<and> runGeminiCLI rt (planningPrompt prompt) (planning_options options) w_id = (Inr response, w_run)"
  then have run: "runGeminiCLI rt (planningPrompt prompt) (planning_options options)
                    (snd (generatePlanId rt w)) = (Inr response, w_run)"
    by simp
  assume bad: "jsonMatch (result response) = None
       \<or> (\<exists>m. jsonMatch (result response) = Some m
              \<and> ((\<exists>syntaxError. JSON_parse rt m = Inl syntaxError)
                 \<or> (\<exists>planData. JSON_parse rt m = Inr planData
                       \<and> (field planData ''title'' = None
                          \<or> field planData ''description'' = None
                          \<or> (\<forall>ss. field planData ''steps'' \<noteq> Some (JArr ss))))))"
  let ?what = "''Failed to parse plan structure: ''"
  let ?invalid = "''Invalid plan structure: missing required fields''"
  have "(\<exists>e. parse_plan_data rt ?what (result response) = Inl e)
        \<or> (\<exists>planData e'. parse_plan_data rt ?what (result response) = Inr planData
               \<and> required_fields ?invalid planData = Inl e')"
    using bad required_fields_missing [of _ ?invalid]
    by (auto simp: parse_plan_data_cases)
  with generate_without_plan_data [OF run]
  show "\<exists>reason. generatePlanWithGemini rt prompt options w
                      = (Inl (ApplicationError (''Plan generation failed: '' @ reason)), w_run)"
    by blast
next
  assume pre: "generatePlanId rt w = (Inr planId, w_id)
     \<and> runGeminiCLI rt (planningPrompt prompt) (planning_options options) w_id = (Inr response, w_run)"
  assume good: "success response \<and> jsonMatch (result response) = Some m \<and> JSON_parse rt m = Inr planData
      \<and> field planData ''title'' = Some t \<and> truthy t
      \<and> field planData ''description'' = Some d \<and> truthy d
      \<and> field planData ''steps'' = Some (JArr ss) \<and> JNull \<notin> set ss
      \<and> storable (fs w_run) (working_directory rt (cwd options)) planId"
  from generate_with_plan_data [of rt w planId w_id prompt options response w_run m planData t d ss]
       pre good
  obtain plan w' where gen: "generatePlanWithGemini rt prompt options w = (Inr plan, w')"
    and facts: "plan_id plan = planId" "status plan = draft" "title plan = t" "description plan = d"
      "length (steps plan) = length ss"
      "fs w' (planPath (working_directory rt (cwd options)) planId)
         = Some (File (JSON_stringify rt (plan_to_json plan)))"
    and each: "\<forall>i < length ss. validated_step i (ss ! i) = Inr (steps plan ! i)"
    by blast
  have "step_status (steps plan ! i) = Some step_pending
        \<and> (field (ss ! i) ''id'' = None
             \<longrightarrow> step_id (steps plan ! i) = JStr (''step_'' @ show_nat (i + 1)))
        \<and> (field (ss ! i) ''description'' = None
             \<longrightarrow> step_description (steps plan ! i) = JStr (''Step '' @ show_nat (i + 1)))
        \<and> ((\<forall>n. field (ss ! i) ''estimated_duration'' \<noteq> Some (JNum n))
             \<longrightarrow> estimated_duration (steps plan ! i) = Some 300)"
    if "i < length ss" for i
  proof -
    from that good have "ss ! i \<noteq> JNull" by (metis nth_mem)
    from validated_step_ok [OF this, of i] each that show ?thesis by auto
  qed
  with gen facts
  show "\<exists>plan w'. generatePlanWithGemini rt prompt options w = (Inr plan, w')
             \<and> plan_id plan = planId \<and> status plan = draft
             \<and> title plan = t \<and> description plan = d
             \<and> length (steps plan) = length ss
             \<and> (\<forall>i < length ss.
                   step_status (steps plan ! i) = Some step_pending
                 \<and> (field (ss ! i) ''id'' = None
                      \<longrightarrow> step_id (steps plan ! i) = JStr (''step_'' @ show_nat (i + 1)))
                 \<and> (field (ss ! i) ''description'' = None
                      \<longrightarrow> step_description (steps plan ! i) = JStr (''Step '' @ show_nat (i + 1)))
                 \<and> ((\<forall>n. field (ss ! i) ''estimated_duration'' \<noteq> Some (JNum n))
                      \<longrightarrow> estimated_duration (steps plan ! i) = Some 300))
             \<and> fs w' (planPath (working_directory rt (cwd options)) planId)
                 = Some (File (JSON_stringify rt (plan_to_json plan)))"
    by blast
qed

theorem generatePlanWithGemini_reply_witness:
  "generatePlanId (demo_runtime [(example_reply, example_reply_json)] (replying example_reply))
      (demo_world empty_fs)
     = (Inr ''plan_2024-01-08_12-34-56_k3j9x2'', (demo_world empty_fs)\<lparr>random_draws := 1\<rparr>)
   \<and> fst (runGeminiCLI (demo_runtime [(example_reply, example_reply_json)] (replying example_reply))
            (planningPrompt ''Add input validation to the signup form'')
            (planning_options no_options) ((demo_world empty_fs)\<lparr>random_draws := 1\<rparr>))
     = Inr (reply_response
              (finalPrompt (planning_options no_options)
                 (planningPrompt ''Add input validation to the signup form''))
              example_reply)
   \<and> jsonMatch example_reply = Some example_reply
   \<and> JSON_parse (demo_runtime [(example_reply, example_reply_json)] (replying example_reply))
        example_reply = Inr example_reply_json
   \<and> (\<exists>plan w'.
         generatePlanWithGemini
           (demo_runtime [(example_reply, example_reply_json)] (replying example_reply))
           ''Add input validation to the signup form'' no_options (demo_world empty_fs)
           = (Inr plan, w')
         \<and> status plan = draft \<and> length (steps plan) = 1
         \<and> step_id (steps plan ! 0) = JStr ''step_1''
         \<and> estimated_duration (steps plan ! 0) = Some 300
         \<and> step_status (steps plan ! 0) = Some step_pending)
   \<and> fst (runGeminiCLI (demo_runtime [] (replying ''I cannot help.''))
            (planningPrompt ''Add input validation to the signup form'')
            (planning_options no_options) ((demo_world empty_fs)\<lparr>random_draws := 1\<rparr>))
     = Inr (reply_response
              (finalPrompt (planning_options no_options)
                 (planningPrompt ''Add input validation to the signup form''))
              ''I cannot help.'')
   \<and> jsonMatch ''I cannot help.'' = None
   \<and> (\<exists>reason.
         fst (generatePlanWithGemini (demo_runtime [] (replying ''I cannot help.''))
                ''Add input validation to the signup form'' no_options (demo_world empty_fs))
           = Inl (ApplicationError (''Plan generation failed: '' @ reason)))"
proof -
  let ?good = "demo_runtime [(example_reply, example_reply_json)] (replying example_reply)"
  let ?bad = "demo_runtime [] (replying ''I cannot help.'')"
  let ?w = "demo_world empty_fs" and ?drawn = "(demo_world empty_fs)\<lparr>random_draws := 1\<rparr>"
  let ?prompt = "''Add input validation to the signup form''"
  let ?sent = "finalPrompt (planning_options no_options) (planningPrompt ?prompt)"
  let ?id = "''plan_2024-01-08_12-34-56_k3j9x2''"
  let ?step = "JObj [(''description'', JStr ''Add server-side checks'')]"
  have opts: "planning_options no_options
                = no_options\<lparr>systemPrompt := Some (planningSystemPrompt None)\<rparr>"
    by (simp add: planning_options_def no_options_def)
  have dir: "working_directory rt (cwd no_options) = [''work'']" for rt
    by (simp add: no_options_def)
  have id_good: "generatePlanId ?good ?w = (Inr ?id, ?drawn)"
    and id_bad: "generatePlanId ?bad ?w = (Inr ?id, ?drawn)"
    by (simp_all add: demo_generatePlanId)
  obtain w_run where run_good: "runGeminiCLI ?good (planningPrompt ?prompt)
                    (planning_options no_options) ?drawn = (Inr (reply_response ?sent example_reply), w_run)"
    and files: "fs w_run = empty_fs"
    unfolding opts using demo_reply_run [OF example_reply_clean(1-3)] by simp
  obtain w_bad where run_bad: "runGeminiCLI ?bad (planningPrompt ?prompt)
                    (planning_options no_options) ?drawn = (Inr (reply_response ?sent ''I cannot help.''), w_bad)"
    unfolding opts using demo_reply_run [of "''I cannot help.''"] by (simp add: is_space_def)
  have parsed: "JSON_parse ?good example_reply = Inr example_reply_json"
    by (simp add: demo_parse_def)
  have fields: "field example_reply_json ''title'' = Some (JStr ''Add validation'')"
    "field example_reply_json ''description'' = Some (JStr ''...'')"
    "field example_reply_json ''steps'' = Some (JArr [?step])"
    by (simp_all add: example_reply_json_def)
  have room: "storable (fs w_run) [''work''] ?id"
    by (simp add: files storable_def empty_fs_def plansDir_def planPath_def)
  have no_match: "jsonMatch ''I cannot help.'' = None"
    by (simp add: jsonMatch_def)
  from generatePlanWithGemini_reply
         [where rt = ?good and w = ?w and planId = ?id and w_id = ?drawn and prompt = ?prompt
            and options = no_options and response = "reply_response ?sent example_reply"
            and w_run = w_run and m = example_reply and planData = example_reply_json
            and t = "JStr ''Add validation''" and d = "JStr ''...''" and ss = "[?step]"]
  have "\<exists>plan w'. generatePlanWithGemini ?good ?prompt no_options ?w = (Inr plan, w')
          \<and> status plan = draft \<and> length (steps plan) = 1
          \<and> step_id (steps plan ! 0) = JStr ''step_1''
          \<and> estimated_duration (steps plan ! 0) = Some 300
          \<and> step_status (steps plan ! 0) = Some step_pending"
    using id_good run_good parsed fields room example_reply_clean(4) show_nat_1
    by (fastforce simp: reply_response_def dir)
  moreover
  have silent_reply: "jsonMatch (result (reply_response ?sent ''I cannot help.'')) = None"
    by (simp add: reply_response_def no_match)
  from generatePlanWithGemini_reply
         [where rt = ?bad and w = ?w and planId = ?id and w_id = ?drawn and prompt = ?prompt
            and options = no_options and response = "reply_response ?sent ''I cannot help.''"
            and w_run = w_bad and m = "[]" and planData = JNull and t = JNull and d = JNull
            and ss = "[]"]
       id_bad run_bad silent_reply
  obtain reason where "generatePlanWithGemini ?bad ?prompt no_options ?w
                         = (Inl (ApplicationError (''Plan generation failed: '' @ reason)), w_bad)"
    by blast
  then have "\<exists>reason. fst (generatePlanWithGemini ?bad ?prompt no_options ?w)
                   = Inl (ApplicationError (''Plan generation failed: '' @ reason))"
    by (intro exI [of _ reason]) simp
  ultimately show ?thesis
    using id_good run_good run_bad parsed no_match example_reply_clean(4) by simp
qed

subsection \<open>Editing a plan\<close>

lemma validatedSteps_from_pending:
  "validatedSteps_from k ss = Inr vs \<Longrightarrow> \<forall>s \<in> set vs. step_status s = Some step_pending"
proof (induction ss arbitrary: k vs)
  case Nil
  then show ?case by simp
next
  case (Cons s ss)
  then show ?case
    by (auto simp: validated_step_def split: sum.splits if_splits)
qed

lemma required_fields_Inr:
  "required_fields invalid planData = Inr (t, d, ss) \<Longrightarrow>
     field planData ''title'' = Some t \<and> field planData ''description'' = Some d
     \<and> field planData ''steps'' = Some (JArr ss)"
  by (auto simp: required_fields_def split: if_splits option.splits json.splits)

lemma editPlanWithGemini_success:
  assumes edit: "editPlanWithGemini rt planId editInstructions options w = (Inr updated, w')"
      and load: "loadPlan rt planId (working_directory rt (cwd options)) w = (Inr (Some existing), w)"
  shows "\<exists>response w_run planData t d ss vs.
           runGeminiCLI rt (editingPrompt rt existing editInstructions)
             (options\<lparr>systemPrompt := Some editingSystemPrompt\<rparr>) w = (Inr response, w_run)
         \<and> success response
         \<and> parse_plan_data rt ''Failed to parse edited plan structure: '' (result response)
             = Inr planData
         \<and> required_fields ''Invalid edited plan structure: missing required fields'' planData
             = Inr (t, d, ss)
         \<and> validatedSteps ss = Inr vs
         \<and> updated = existing\<lparr>title := t, description := d, steps := vs,
                                modified_at := clock w_run, status := draft\<rparr>
         \<and> savePlan rt updated (working_directory rt (cwd options)) w_run = (Inr (), w')"
proof -
  let ?wd = "working_directory rt (cwd options)"
  obtain r w_run where run: "runGeminiCLI rt (editingPrompt rt existing editInstructions)
             (options\<lparr>systemPrompt := Some editingSystemPrompt\<rparr>) w = (r, w_run)"
    by (cases "runGeminiCLI rt (editingPrompt rt existing editInstructions)
             (options\<lparr>systemPrompt := Some editingSystemPrompt\<rparr>) w") auto
  show ?thesis
  proof (cases r)
    case (Inl e)
    with edit load run show ?thesis
      by (simp add: editPlanWithGemini_def Let_def and_then_def try_catch_def throw_def)
  next
    case (Inr response)
    note resp = this
    show ?thesis
    proof (cases "success response")
      case False
      with edit load run resp show ?thesis
        by (simp add: editPlanWithGemini_def Let_def and_then_def try_catch_def throw_def)
    next
      case True
      note ok = this
      show ?thesis
      proof (cases "parse_plan_data rt ''Failed to parse edited plan structure: '' (result response)")
        case (Inl e)
        with edit load run resp ok show ?thesis
          by (simp add: editPlanWithGemini_def Let_def and_then_def try_catch_def throw_def lift_def)
      next
        case (Inr planData)
        note data = this
        show ?thesis
        proof (cases "required_fields ''Invalid edited plan structure: missing required fields'' planData")
          case (Inl e)
          with edit load run resp ok data show ?thesis
            by (simp add: editPlanWithGemini_def Let_def and_then_def try_catch_def throw_def
                lift_def return_ok_def)
        next
          case (Inr req)
          obtain t d ss where req': "req = (t, d, ss)" by (cases req) auto
          note fields = Inr [unfolded req']
          show ?thesis
          proof (cases "validatedSteps ss")
            case (Inl e)
            with edit load run resp ok data fields show ?thesis
              by (simp add: editPlanWithGemini_def Let_def and_then_def try_catch_def throw_def
                  lift_def return_ok_def)
          next
            case (Inr vs)
            let ?u = "existing\<lparr>title := t, description := d, steps := vs,
                               modified_at := clock w_run, status := draft\<rparr>"
            obtain s w_s where save: "savePlan rt ?u ?wd w_run = (s, w_s)"
              by (cases "savePlan rt ?u ?wd w_run") auto
            from edit load run resp ok data fields Inr save
            have "s = Inr ()" "w_s = w'" "updated = ?u"
              by (cases s; simp add: editPlanWithGemini_def Let_def and_then_def try_catch_def
                  throw_def lift_def return_ok_def Date_now_def)+
            with run resp ok data fields Inr save show ?thesis
              by blast
          qed
        qed
      qed
    qed
  qed
qed

lemma editPlanWithGemini_with_plan_data:
  assumes load: "loadPlan rt planId (working_directory rt (cwd options)) w = (Inr (Some existing), w)"
      and run: "runGeminiCLI rt (editingPrompt rt existing editInstructions)
                  (options\<lparr>systemPrompt := Some editingSystemPrompt\<rparr>) w = (Inr response, w_run)"
      and ok: "success response"
      and found: "jsonMatch (result response) = Some m"
      and parsed: "JSON_parse rt m = Inr planData"
      and t: "field planData ''title'' = Some t" "truthy t"
      and d: "field planData ''description'' = Some d" "truthy d"
      and ss: "field planData ''steps'' = Some (JArr ss)" "validatedSteps ss = Inr vs"
      and room: "storable (fs w_run) (working_directory rt (cwd options)) (plan_id existing)"
  shows "\<exists>w'. editPlanWithGemini rt planId editInstructions options w
                 = (Inr (existing\<lparr>title := t, description := d, steps := vs,
                                    modified_at := clock w_run, status := draft\<rparr>), w')"
proof -
  let ?wd = "working_directory rt (cwd options)"
  let ?u = "existing\<lparr>title := t, description := d, steps := vs,
                     modified_at := clock w_run, status := draft\<rparr>"
  from room have "storable (fs w_run) ?wd (plan_id ?u)" by simp
  from savePlan_storable [OF this, of rt] obtain w' where
    saved: "savePlan rt ?u ?wd w_run = (Inr (), w')"
    by blast
  have data: "parse_plan_data rt ''Failed to parse edited plan structure: '' (result response)
                = Inr planData"
    using found parsed by (simp add: parse_plan_data_def)
  have req: "required_fields ''Invalid edited plan structure: missing required fields'' planData
               = Inr (t, d, ss)"
    using t d ss(1) by (rule required_fields_present)
  have "editPlanWithGemini rt planId editInstructions options w = (Inr ?u, w')"
    using load run ok data req ss(2) saved
    by (simp add: editPlanWithGemini_def and_then_def try_catch_def throw_def lift_def
        Date_now_def return_ok_def Let_def)
  then show ?thesis by blast
qed

lemma demo_documents_differ:
  "show_json (plan_to_json (demo_plan st ss)) \<noteq> example_reply"
  by (simp add: plan_to_json_def demo_plan_def example_reply_def quote_def)

lemma example_steps:
  "validatedSteps [JObj [(''description'', JStr ''Add server-side checks'')]] = Inr [example_step]"
  by (simp add: validatedSteps_def validated_step_def js_or_def show_nat.simps digit_def
      example_step_def)

text \<open>
  C8. Whenever \<^verbatim>\<open>editPlanWithGemini\<close> succeeds on a stored plan, the plan it returns has
  status \<^verbatim>\<open>draft\<close> and every step has status \<^verbatim>\<open>pending\<close>, whatever they were before; its
  id, \<^verbatim>\<open>created_at\<close>, \<^verbatim>\<open>original_prompt\<close> and \<^verbatim>\<open>configuration\<close> are those of the stored
  plan; its title, description and steps are those of the agent's reply and its
  \<^verbatim>\<open>modified_at\<close> is the time after the agent's run; and the plan file holds the returned
  plan.
\<close>

theorem editPlanWithGemini_resets:
  "editPlanWithGemini rt planId editInstructions options w = (Inr updated, w')
   \<and> loadPlan rt planId (working_directory rt (cwd options)) w = (Inr (Some existing), w)
   \<longrightarrow> status updated = draft
     \<and> (\<forall>s \<in> set (steps updated). step_status s = Some step_pending)
     \<and> plan_id updated = plan_id existing
     \<and> created_at updated = created_at existing
     \<and> original_prompt updated = original_prompt existing
     \<and> configuration updated = configuration existing
     \<and> (\<exists>response w_run planData ss.
           runGeminiCLI rt (editingPrompt rt existing editInstructions)
             (options\<lparr>systemPrompt := Some editingSystemPrompt\<rparr>) w = (Inr response, w_run)
         \<and> parse_plan_data rt ''Failed to parse edited plan structure: '' (result response)
             = Inr planData
         \<and> field planData ''title'' = Some (title updated)
         \<and> field planData ''description'' = Some (description updated)
         \<and> field planData ''steps'' = Some (JArr ss)
         \<and> validatedSteps ss = Inr (steps updated)
         \<and> modified_at updated = clock w_run)
     \<and> fs w' (planPath (working_directory rt (cwd options)) (plan_id existing))
         = Some (File (JSON_stringify rt (plan_to_json updated)))"
proof
  assume a: "editPlanWithGemini rt planId editInstructions options w = (Inr updated, w')
     \<and> loadPlan rt planId (working_directory rt (cwd options)) w = (Inr (Some existing), w)"
  let ?wd = "working_directory rt (cwd options)"
  from editPlanWithGemini_success [of rt planId editInstructions options w updated w' existing] a
  obtain response w_run planData t d ss vs where
    run: "runGeminiCLI rt (editingPrompt rt existing editInstructions)
             (options\<lparr>systemPrompt := Some editingSystemPrompt\<rparr>) w = (Inr response, w_run)"
    and data: "parse_plan_data rt ''Failed to parse edited plan structure: '' (result response)
             = Inr planData"
    and req: "required_fields ''Invalid edited plan structure: missing required fields'' planData
             = Inr (t, d, ss)"
    and vs: "validatedSteps ss = Inr vs"
    and u: "updated = existing\<lparr>title := t, description := d, steps := vs,
                                modified_at := clock w_run, status := draft\<rparr>"
    and save: "savePlan rt updated ?wd w_run = (Inr (), w')"
    by blast
  from u have frame: "status updated = draft" "plan_id updated = plan_id existing"
    "created_at updated = created_at existing" "original_prompt updated = original_prompt existing"
    "configuration updated = configuration existing" "modified_at updated = clock w_run"
    and content: "title updated = t" "description updated = d" "steps updated = vs"
    by simp_all
  from vs content have pending: "\<forall>s \<in> set (steps updated). step_status s = Some step_pending"
    using validatedSteps_from_pending [of 0 ss vs] by (simp add: validatedSteps_def)
  from savePlan_result(1) [OF save] frame(2)
  have stored: "fs w' (planPath ?wd (plan_id existing))
                  = Some (File (JSON_stringify rt (plan_to_json updated)))"
    by simp
  from required_fields_Inr [OF req] run data vs frame(6) content
  have "\<exists>response w_run planData ss.
           runGeminiCLI rt (editingPrompt rt existing editInstructions)
             (options\<lparr>systemPrompt := Some editingSystemPrompt\<rparr>) w = (Inr response, w_run)
         \<and> parse_plan_data rt ''Failed to parse edited plan structure: '' (result response)
             = Inr planData
         \<and> field planData ''title'' = Some (title updated)
         \<and> field planData ''description'' = Some (description updated)
         \<and> field planData ''steps'' = Some (JArr ss)
         \<and> validatedSteps ss = Inr (steps updated)
         \<and> modified_at updated = clock w_run"
    by blast
  with frame pending stored
  show "status updated = draft
     \<and> (\<forall>s \<in> set (steps updated). step_status s = Some step_pending)
     \<and> plan_id updated = plan_id existing
     \<and> created_at updated = created_at existing
     \<and> original_prompt updated = original_prompt existing
     \<and> configuration updated = configuration existing
     \<and> (\<exists>response w_run planData ss.
           runGeminiCLI rt (editingPrompt rt existing editInstructions)
             (options\<lparr>systemPrompt := Some editingSystemPrompt\<rparr>) w = (Inr response, w_run)
         \<and> parse_plan_data rt ''Failed to parse edited plan structure: '' (result response)
             = Inr planData
         \<and> field planData ''title'' = Some (title updated)
         \<and> field planData ''description'' = Some (description updated)
         \<and> field planData ''steps'' = Some (JArr ss)
         \<and> validatedSteps ss = Inr (steps updated)
         \<and> modified_at updated = clock w_run)
     \<and> fs w' (planPath (working_directory rt (cwd options)) (plan_id existing))
         = Some (File (JSON_stringify rt (plan_to_json updated)))"
    by simp
qed

theorem editPlanWithGemini_resets_witness:
  "editPlanWithGemini
      (demo_runtime [document (demo_plan completed all_completed),
                     (example_reply, example_reply_json)] (replying example_reply))
      ''plan_1'' ''Keep only the server-side checks'' no_options
      (demo_world (demo_fs (demo_plan completed all_completed)))
     = (Inr ((demo_plan completed all_completed)
               \<lparr>title := JStr ''Add validation'', description := JStr ''...'',
                steps := [example_step], modified_at := 5010, status := draft\<rparr>),
        snd (editPlanWithGemini
               (demo_runtime [document (demo_plan completed all_completed),
                              (example_reply, example_reply_json)] (replying example_reply))
               ''plan_1'' ''Keep only the server-side checks'' no_options
               (demo_world (demo_fs (demo_plan completed all_completed)))))
   \<and> loadPlan
        (demo_runtime [document (demo_plan completed all_completed),
                       (example_reply, example_reply_json)] (replying example_reply))
        ''plan_1'' [''work''] (demo_world (demo_fs (demo_plan completed all_completed)))
     = (Inr (Some (demo_plan completed all_completed)),
        demo_world (demo_fs (demo_plan completed all_completed)))
   \<and> status (demo_plan completed all_completed) = completed
   \<and> map step_status (steps (demo_plan completed all_completed))
       = [Some step_completed, Some step_completed, Some step_completed]
   \<and> fs (snd (editPlanWithGemini
               (demo_runtime [document (demo_plan completed all_completed),
                              (example_reply, example_reply_json)] (replying example_reply))
               ''plan_1'' ''Keep only the server-side checks'' no_options
               (demo_world (demo_fs (demo_plan completed all_completed)))))
        (planPath [''work''] ''plan_1'')
     = Some (File (show_json (plan_to_json
          ((demo_plan completed all_completed)
             \<lparr>title := JStr ''Add validation'', description := JStr ''...'',
              steps := [example_step], modified_at := 5010, status := draft\<rparr>))))"
proof -
  let ?e = "demo_plan completed all_completed"
  let ?u = "?e\<lparr>title := JStr ''Add validation'', description := JStr ''...'',
                steps := [example_step], modified_at := 5010, status := draft\<rparr>"
  let ?rt = "demo_runtime [document ?e, (example_reply, example_reply_json)]
               (replying example_reply)"
  let ?w = "demo_world (demo_fs ?e)"
  let ?how = "''Keep only the server-side checks''"
  let ?sent = "finalPrompt (no_options\<lparr>systemPrompt := Some editingSystemPrompt\<rparr>)
                 (editingPrompt ?rt ?e ?how)"
  have dir: "working_directory rt (cwd no_options) = [''work'']" for rt
    by (simp add: no_options_def)
  have load: "loadPlan ?rt ''plan_1'' [''work''] ?w = (Inr (Some ?e), ?w)"
    by (simp add: loadPlan_def readFile_def planPath_def plansDir_def demo_fs_def plan_roundtrip)
  have "?w = ?w\<lparr>random_draws := 0\<rparr>"
    by (simp add: demo_world_def)
  with demo_reply_run [OF example_reply_clean(1-3),
         where table = "[document ?e, (example_reply, example_reply_json)]"
           and prompt = "editingPrompt ?rt ?e ?how" and sp = editingSystemPrompt
           and f = "demo_fs ?e" and n = 0]
  obtain w_run where run: "runGeminiCLI ?rt (editingPrompt ?rt ?e ?how)
                  (no_options\<lparr>systemPrompt := Some editingSystemPrompt\<rparr>) ?w
                = (Inr (reply_response ?sent example_reply), w_run)"
    and files: "fs w_run = demo_fs ?e" and time: "clock w_run = 5010"
    by (metis (no_types, lifting) world.select_convs(1,2) world.update_convs(2,3,4)
        world.surjective demo_world_simps(1))
  have parsed: "JSON_parse ?rt example_reply = Inr example_reply_json"
    by (simp add: demo_parse_def document_def demo_documents_differ [symmetric])
  have fields: "field example_reply_json ''title'' = Some (JStr ''Add validation'')"
    "field example_reply_json ''description'' = Some (JStr ''...'')"
    "field example_reply_json ''steps''
       = Some (JArr [JObj [(''description'', JStr ''Add server-side checks'')]])"
    by (simp_all add: example_reply_json_def)
  have room: "storable (fs w_run) [''work''] ''plan_1''"
    by (simp add: files storable_def demo_fs_def plansDir_def planPath_def)
  from editPlanWithGemini_with_plan_data
         [of ?rt "''plan_1''" no_options ?w ?e ?how "reply_response ?sent example_reply" w_run
             example_reply example_reply_json "JStr ''Add validation''" "JStr ''...''"
             "[JObj [(''description'', JStr ''Add server-side checks'')]]" "[example_step]"]
       load run parsed fields room example_reply_clean(4) example_steps
  obtain w' where edit: "editPlanWithGemini ?rt ''plan_1'' ?how no_options ?w = (Inr ?u, w')"
    by (auto simp: dir reply_response_def time)
  then have edit': "editPlanWithGemini ?rt ''plan_1'' ?how no_options ?w
                      = (Inr ?u, snd (editPlanWithGemini ?rt ''plan_1'' ?how no_options ?w))"
    by simp
  have old: "status ?e = completed"
    "map step_status (steps ?e) = [Some step_completed, Some step_completed, Some step_completed]"
    by (simp_all add: demo_plan_def all_completed_def demo_step_def)
  from editPlanWithGemini_resets
         [where rt = ?rt and planId = "''plan_1''" and editInstructions = ?how
            and options = no_options and w = ?w and updated = ?u
            and w' = "snd (editPlanWithGemini ?rt ''plan_1'' ?how no_options ?w)"
            and existing = ?e]
  show ?thesis using edit' load old by (simp add: dir)
qed

subsection \<open>Executing a plan\<close>








text \<open>
  The loop. From a state whose plan has \<open>k\<close> steps before the remaining ones, it ends
  without an exception after completing some number \<open>m\<close> of the remaining steps: the
  statuses before position \<open>k\<close> are untouched, the next \<open>m\<close> are \<^verbatim>\<open>completed\<close>, and if steps
  remain after them the first is \<^verbatim>\<open>failed\<close> and the others keep their status.
\<close>

lemma set_step_status_simps [simp]:
  "plan_id (set_step_status i step s plan) = plan_id plan"
  "status (set_step_status i step s plan) = status plan"
  "length (steps (set_step_status i step s plan)) = length (steps plan)"
  "map step_status (steps (set_step_status i step s plan))
     = (map step_status (steps plan))[i := Some s]"
  by (simp_all add: set_step_status_def map_update)










end
